theory Spec2Isabelle
  imports Main "HOL-Library.Word" "HOL-Library.Signed_Division"
begin

section \<open>Values and host memory\<close>

text \<open>
  A C \<^verbatim>\<open>int\<close> is a 32-bit word, read as two's complement by \<open>sint\<close>. Addition on
  words wraps around, which is what the machine does where C leaves signed overflow
  undefined. Host memory is a store of \<^verbatim>\<open>int\<close> cells; a pointer \<^verbatim>\<open>int *\<close> is the
  number of the cell it points to, so \<^verbatim>\<open>A[i]\<close> is the cell \<open>A + i\<close>. Two pointers
  may point into the same cells: nothing in the store keeps arrays apart.
\<close>

type_synonym cint = "32 word"
type_synonym ptr = int
type_synonym memory = "ptr \<Rightarrow> cint"

text \<open>Two blocks of \<open>n\<close> cells, at \<open>p\<close> and at \<open>q\<close>, that share no cell.\<close>

definition disjoint_blocks :: "ptr \<Rightarrow> ptr \<Rightarrow> int \<Rightarrow> bool" where
  "disjoint_blocks p q n = (n \<le> 0 \<or> p + n \<le> q \<or> q + n \<le> p)"

section \<open>The OpenMP program: vector addition\<close>

text \<open>
  \<^verbatim>\<open>
  void vector_add_openmp(int *v1, int *v2, int *v_out, int size) {
      #pragma omp parallel for
      for (int i = 0; i < size; i++) {
          v_out[i] = v1[i] + v2[i];
      }
  }
  \<close>
  One iteration of the loop body is \<open>vector_add_iter\<close>. The loop as written, with its
  32-bit counter, is \<open>vector_add_loop\<close>. The pragma lets the runtime run the iterations
  in any order, each once: \<open>vector_add_in_order\<close> runs them in a given order, one
  iteration at a time, and \<open>iterations\<close> is the iteration space of the loop.
\<close>

definition vector_add_iter :: "ptr \<Rightarrow> ptr \<Rightarrow> ptr \<Rightarrow> cint \<Rightarrow> memory \<Rightarrow> memory" where
  "vector_add_iter v1 v2 v_out i m = m(v_out + sint i := m (v1 + sint i) + m (v2 + sint i))"

function vector_add_loop :: "ptr \<Rightarrow> ptr \<Rightarrow> ptr \<Rightarrow> cint \<Rightarrow> cint \<Rightarrow> memory \<Rightarrow> memory" where
  "vector_add_loop v1 v2 v_out sz i m =
     (if i <s sz then vector_add_loop v1 v2 v_out sz (i + 1) (vector_add_iter v1 v2 v_out i m)
      else m)"
  by pat_completeness auto
termination
proof (relation "measure (\<lambda>(v1, v2, v_out, sz, i, m). nat (sint sz - sint i))")
  fix v1 v2 v_out :: ptr and sz i :: cint and m :: memory
  assume "i <s sz"
  then have lt: "sint i < sint sz"
    by (simp add: word_sless_alt)
  have "sint sz < 2 ^ 31" "- (2 ^ 31) \<le> sint i"
    using sint_lt [of sz] sint_ge [of i] by simp_all
  with lt have "- (2 ^ 31) \<le> sint i + 1" "sint i + 1 < 2 ^ 31"
    by linarith+
  then have "signed_take_bit 31 (sint i + 1) = sint i + 1"
    by (simp add: signed_take_bit_int_eq_self)
  then have "sint (i + 1) = sint i + 1"
    by (simp add: sint_word_add)
  with lt show "((v1, v2, v_out, sz, i + 1, vector_add_iter v1 v2 v_out i m), (v1, v2, v_out, sz, i, m))
      \<in> measure (\<lambda>(v1, v2, v_out, sz, i, m). nat (sint sz - sint i))"
    by simp
qed simp

definition vector_add_openmp :: "ptr \<Rightarrow> ptr \<Rightarrow> ptr \<Rightarrow> cint \<Rightarrow> memory \<Rightarrow> memory" where
  "vector_add_openmp v1 v2 v_out sz m = vector_add_loop v1 v2 v_out sz 0 m"

definition iterations :: "cint \<Rightarrow> cint list" where
  "iterations sz = map word_of_int [0 .. sint sz - 1]"

definition vector_add_in_order :: "cint list \<Rightarrow> ptr \<Rightarrow> ptr \<Rightarrow> ptr \<Rightarrow> memory \<Rightarrow> memory" where
  "vector_add_in_order js v1 v2 v_out m = fold (vector_add_iter v1 v2 v_out) js m"

section \<open>The world outside the two programs\<close>

text \<open>
  Both programs call the C library, the OpenMP runtime and the OpenCL platform. What
  these return is not decided by the repository's code, so it is a parameter of every
  run: the \<open>world\<close>. Each field is named after the call whose result it gives.
  \<^item> \<open>rand w k\<close> is what the \<open>k\<close>-th call of \<^verbatim>\<open>rand()\<close> returns. Neither program
    calls \<^verbatim>\<open>srand\<close>, so this is the C library's sequence for its default seed.
  \<^item> \<open>malloc w k\<close> is the pointer the \<open>k\<close>-th call of \<^verbatim>\<open>malloc\<close> for a vector returns.
  \<^item> An OpenCL status is an \<^verbatim>\<open>int\<close>: \<^verbatim>\<open>CL_SUCCESS\<close> is 0 and every error code is
    negative (\<^verbatim>\<open>CL_DEVICE_NOT_FOUND\<close> is -1), as the header \<^verbatim>\<open>CL/cl.h\<close> defines them.
  \<^item> \<open>clCreateBuffer w b\<close> says whether the handle returned for buffer \<open>b\<close> is not
    \<^verbatim>\<open>NULL\<close> (the code passes \<^verbatim>\<open>NULL\<close> for the error code of this call).
  \<^item> \<open>elapsed w\<close> is the text \<^verbatim>\<open>%f\<close> prints for the measured duration.
\<close>

datatype device_type = CL_DEVICE_TYPE_GPU | CL_DEVICE_TYPE_CPU

datatype buffer = BufV1 | BufV2 | BufV_out

datatype cl_object = Buffer buffer | Kernel | Queue | Program | Context

datatype api =
    GetPlatformIDs
  | GetDeviceIDs device_type
  | BuildProgram
  | GetProgramBuildInfo
  | EnqueueWriteBuffer buffer
  | SetKernelArg nat
  | EnqueueNDRangeKernel
  | WaitForEvents
  | EnqueueReadBuffer

text \<open>
  What a run does that can be seen from outside, in the order it happens: text written
  by \<^verbatim>\<open>printf\<close>, a message given to \<^verbatim>\<open>perror\<close>, a call of the OpenCL API, the
  creation and the release of an OpenCL object, and \<^verbatim>\<open>free\<close> of a host vector.
\<close>

datatype event =
    Printf string
  | Perror string
  | Call api
  | Create cl_object
  | Release cl_object
  | Free ptr

datatype kernel_arg = IntArg cint | MemArg buffer

record world =
  argv :: "string list"
  atoi :: "string \<Rightarrow> cint"
  rand :: "nat \<Rightarrow> cint"
  malloc :: "nat \<Rightarrow> ptr"
  memory0 :: memory
  omp_get_max_threads :: cint
  elapsed :: string
  clGetPlatformIDs :: int
  clGetDeviceIDs :: "device_type \<Rightarrow> int \<times> nat"
  clCreateContext :: int
  fopen :: "string \<Rightarrow> bool"
  clCreateProgramWithSource :: int
  clBuildProgram :: int
  clGetProgramBuildInfo :: string
  clCreateCommandQueueWithProperties :: int
  clCreateKernel :: int
  clCreateBuffer :: "buffer \<Rightarrow> bool"
  device0 :: "buffer \<Rightarrow> nat \<Rightarrow> cint"
  clEnqueueWriteBuffer :: "buffer \<Rightarrow> int"
  clSetKernelArg :: "nat \<Rightarrow> int"
  clEnqueueNDRangeKernel :: int
  clWaitForEvents :: int
  clEnqueueReadBuffer :: int

definition CL_SUCCESS :: int where
  "CL_SUCCESS = 0"

definition CL_DEVICE_NOT_FOUND :: int where
  "CL_DEVICE_NOT_FOUND = - 1"

section \<open>The state of a run\<close>

text \<open>
  The global variables of the programs (\<^verbatim>\<open>SZ\<close>, \<^verbatim>\<open>err\<close>, \<^verbatim>\<open>device_id\<close> and the three
  vector pointers, which are locals of \<^verbatim>\<open>main\<close> in the OpenMP program), host memory,
  the number of calls of \<^verbatim>\<open>rand\<close> and \<^verbatim>\<open>malloc\<close> so far, and the trace of events.
  For the OpenCL program also the device: which buffer handles are not \<^verbatim>\<open>NULL\<close>, the
  contents of the three device buffers, and the arguments bound to the kernel. The
  context, program, queue and kernel handles are only passed back to the API, so they
  have no field.
\<close>

record state =
  SZ :: cint
  mem :: memory
  rand_calls :: nat
  malloc_calls :: nat
  trace :: "event list"
  err :: int
  device_id :: nat
  v1 :: ptr
  v2 :: ptr
  v_out :: ptr
  handle :: "buffer \<Rightarrow> bool"
  dmem :: "buffer \<Rightarrow> nat \<Rightarrow> cint"
  kernel_args :: "nat \<Rightarrow> kernel_arg option"

text \<open>
  At process start \<^verbatim>\<open>SZ\<close> is 100000000 and the other globals are zero.
\<close>

definition start :: "world \<Rightarrow> state" where
  "start w = \<lparr>SZ = 100000000, mem = memory0 w, rand_calls = 0, malloc_calls = 0,
     trace = [], err = 0, device_id = 0, v1 = 0, v2 = 0, v_out = 0,
     handle = (\<lambda>b. False), dmem = device0 w, kernel_args = (\<lambda>k. None)\<rparr>"

text \<open>
  A function that can call \<^verbatim>\<open>exit\<close> gives an outcome: the process has exited with a
  code, or the function has returned a value.
\<close>

datatype 'a outcome = Exit int state | Return 'a state

definition log :: "event \<Rightarrow> state \<Rightarrow> state" where
  "log e s = s\<lparr>trace := trace s @ [e]\<rparr>"

definition newline :: string where
  "newline = [CHR 0x0A]"

section \<open>Helpers of both programs: decimal text, init, print\<close>

text \<open>The text \<^verbatim>\<open>%d\<close> prints for an integer.\<close>

fun digits :: "nat \<Rightarrow> string" where
  "digits n = (if n < 10 then [''0123456789'' ! n] else digits (n div 10) @ [''0123456789'' ! (n mod 10)])"

definition show_int :: "int \<Rightarrow> string" where
  "show_int k = (if k < 0 then CHR ''-'' # digits (nat (- k)) else digits (nat k))"

text \<open>
  \<^verbatim>\<open>
  void init(int *&A, int size) {
      A = (int *)malloc(sizeof(int) * size);
      for (long i = 0; i < size; i++) {
          A[i] = rand() % 100;
      }
  }
  \<close>
  The counter is a \<^verbatim>\<open>long\<close>, which holds every value up to \<open>size\<close>: it is an \<open>int\<close>
  here. C's \<^verbatim>\<open>%\<close> truncates towards zero: \<open>smod\<close>. The new pointer is returned to
  the caller, which stores it. A failing \<^verbatim>\<open>malloc\<close> (a crash at the first write) is
  outside the model.
\<close>

function init_loop :: "world \<Rightarrow> ptr \<Rightarrow> cint \<Rightarrow> int \<Rightarrow> state \<Rightarrow> state" where
  "init_loop w A sz i s =
     (if i < sint sz
      then init_loop w A sz (i + 1)
             (s\<lparr>mem := (mem s)(A + i := word_of_int (sint (rand w (rand_calls s)) smod 100)),
                rand_calls := Suc (rand_calls s)\<rparr>)
      else s)"
  by pat_completeness auto
termination
  by (relation "measure (\<lambda>(w, A, sz, i, s). nat (sint sz - i))") auto

definition init :: "world \<Rightarrow> cint \<Rightarrow> state \<Rightarrow> ptr \<times> state" where
  "init w sz s =
     (let A = malloc w (malloc_calls s)
      in (A, init_loop w A sz 0 (s\<lparr>malloc_calls := Suc (malloc_calls s)\<rparr>)))"

text \<open>
  \<^verbatim>\<open>
  #define PRINT 1
  void print(int *A, int size) {
      if (PRINT == 0) { return; }
      if (PRINT == 1 && size > 15) {
          for (long i = 0; i < 5; i++) { printf("%d ", A[i]); }
          printf(" ..... ");
          for (long i = size - 5; i < size; i++) { printf("%d ", A[i]); }
      } else {
          for (long i = 0; i < size; i++) { printf("%d ", A[i]); }
      }
      printf("\n----------------------------\n");
  }
  \<close>
  \<open>print_loop m A i hi\<close> is the text of one of the three loops, from counter \<open>i\<close>
  up to \<open>hi\<close>; \<open>print_text\<close> is all the text one call writes.
\<close>

definition PRINT :: int where
  "PRINT = 1"

function print_loop :: "memory \<Rightarrow> ptr \<Rightarrow> int \<Rightarrow> int \<Rightarrow> string" where
  "print_loop m A i hi =
     (if i < hi then (show_int (sint (m (A + i))) @ '' '') @ print_loop m A (i + 1) hi else [])"
  by pat_completeness auto
termination
  by (relation "measure (\<lambda>(m, A, i, hi). nat (hi - i))") auto

definition print_text :: "memory \<Rightarrow> ptr \<Rightarrow> cint \<Rightarrow> string" where
  "print_text m A sz =
     (if PRINT = 0 then []
      else (if PRINT = 1 \<and> 15 <s sz
            then print_loop m A 0 5 @ '' ..... '' @ print_loop m A (sint sz - 5) (sint sz)
            else print_loop m A 0 (sint sz))
           @ newline @ ''----------------------------'' @ newline)"

definition print :: "ptr \<Rightarrow> cint \<Rightarrow> state \<Rightarrow> state" where
  "print A sz s = log (Printf (print_text (mem s) A sz)) s"

text \<open>
  The first lines of both \<^verbatim>\<open>main\<close> functions:
  \<^verbatim>\<open>
  if (argc > 1) { SZ = atoi(argv[1]); }
  \<close>
  \<open>argv w\<close> holds the program name and the arguments, so \<^verbatim>\<open>argc\<close> is its length.
\<close>

definition parse_args :: "world \<Rightarrow> state \<Rightarrow> state" where
  "parse_args w s = (if 1 < length (argv w) then s\<lparr>SZ := atoi w (argv w ! 1)\<rparr> else s)"

text \<open>
  \<^verbatim>\<open>
  init(v1, SZ);  init(v2, SZ);  init(v_out, SZ);
  printf("Vector v1:\n");  print(v1, SZ);
  printf("Vector v2:\n");  print(v2, SZ);
  \<close>
  These lines are the same in both programs.
\<close>

definition init_vectors :: "world \<Rightarrow> state \<Rightarrow> state" where
  "init_vectors w s =
     (let (p1, s) = init w (SZ s) s;
          s = s\<lparr>v1 := p1\<rparr>;
          (p2, s) = init w (SZ s) s;
          s = s\<lparr>v2 := p2\<rparr>;
          (p3, s) = init w (SZ s) s
      in s\<lparr>v_out := p3\<rparr>)"

definition print_inputs :: "state \<Rightarrow> state" where
  "print_inputs s =
     (let s = log (Printf (''Vector v1:'' @ newline)) s;
          s = print (v1 s) (SZ s) s;
          s = log (Printf (''Vector v2:'' @ newline)) s
      in print (v2 s) (SZ s) s)"

section \<open>The OpenMP program: main\<close>

text \<open>
  \<^verbatim>\<open>main\<close> of the OpenMP program, as the exit code and the final state. The two
  clock readings around the call only feed the timing line.
\<close>

definition openmp_main :: "world \<Rightarrow> int \<times> state" where
  "openmp_main w =
     (let s = parse_args w (start w);
          s = log (Printf (''Running OpenMP implementation with ''
                @ show_int (sint (omp_get_max_threads w)) @ '' threads'' @ newline)) s;
          s = init_vectors w s;
          s = print_inputs s;
          s = s\<lparr>mem := vector_add_openmp (v1 s) (v2 s) (v_out s) (SZ s) (mem s)\<rparr>;
          s = log (Printf (''Vector v_out (OpenMP):'' @ newline)) s;
          s = print (v_out s) (SZ s) s;
          s = log (Printf (''CPU (OpenMP) Execution Time: '' @ elapsed w @ '' ms'' @ newline)) s;
          s = log (Free (v1 s)) s;
          s = log (Free (v2 s)) s;
          s = log (Free (v_out s)) s
      in (0, s))"

section \<open>The OpenCL program\<close>

subsection \<open>The kernel\<close>

text \<open>
  Modelled from the spec: the kernel source \<^verbatim>\<open>./vector_ops_ocl.cl\<close> with its entry
  point \<^verbatim>\<open>vector_add_ocl(int size, buffer a, buffer b, buffer out)\<close> is not among the
  sources. The spec says that the session runs one kernel invocation over N independent
  work items, each computing \<^verbatim>\<open>out[i] = a[i] + b[i]\<close>. \<open>vector_add_ocl\<close> is the
  work item with global id \<open>gid\<close>, on the contents of the device buffers.
\<close>

definition vector_add_ocl ::
  "cint \<Rightarrow> buffer \<Rightarrow> buffer \<Rightarrow> buffer \<Rightarrow> nat \<Rightarrow> (buffer \<Rightarrow> nat \<Rightarrow> cint) \<Rightarrow> (buffer \<Rightarrow> nat \<Rightarrow> cint)" where
  "vector_add_ocl sz a b out gid d = d(out := (d out)(gid := d a gid + d b gid))"

subsection \<open>Device selection\<close>

text \<open>
  \<^verbatim>\<open>
  cl_device_id create_device() {
      cl_platform_id platform;  cl_device_id dev;
      err = clGetPlatformIDs(1, &platform, NULL);
      if (err < 0) { perror("Couldn't identify a platform"); exit(1); }
      err = clGetDeviceIDs(platform, CL_DEVICE_TYPE_GPU, 1, &dev, NULL);
      if (err == CL_DEVICE_NOT_FOUND) {
          printf("GPU not found, falling back to CPU\n");
          err = clGetDeviceIDs(platform, CL_DEVICE_TYPE_CPU, 1, &dev, NULL);
      }
      if (err < 0) { perror("Couldn't access any devices"); exit(1); }
      return dev;
  }
  \<close>
\<close>

definition create_device :: "world \<Rightarrow> state \<Rightarrow> nat outcome" where
  "create_device w s =
     (let s = log (Call GetPlatformIDs) s;
          s = s\<lparr>err := clGetPlatformIDs w\<rparr>
      in if err s < 0 then Exit 1 (log (Perror ''Couldn't identify a platform'') s)
         else
           let s = log (Call (GetDeviceIDs CL_DEVICE_TYPE_GPU)) s;
               (e, dev) = clGetDeviceIDs w CL_DEVICE_TYPE_GPU;
               s = s\<lparr>err := e\<rparr>;
               (s, dev) =
                 (if err s = CL_DEVICE_NOT_FOUND
                  then let s = log (Printf (''GPU not found, falling back to CPU'' @ newline)) s;
                           s = log (Call (GetDeviceIDs CL_DEVICE_TYPE_CPU)) s;
                           (e, dev) = clGetDeviceIDs w CL_DEVICE_TYPE_CPU
                       in (s\<lparr>err := e\<rparr>, dev)
                  else (s, dev))
           in if err s < 0 then Exit 1 (log (Perror ''Couldn't access any devices'') s)
              else Return dev s)"

subsection \<open>Building the program\<close>

text \<open>
  \<^verbatim>\<open>
  cl_program build_program(cl_context ctx, cl_device_id dev, const char *filename) {
      FILE *program_handle = fopen(filename, "r");
      if (program_handle == NULL) { perror("Couldn't find the program file"); exit(1); }
      ... read the file into program_buffer ...
      cl_program program = clCreateProgramWithSource(ctx, 1, ..., &err);
      if (err < 0) { perror("Couldn't create the program"); exit(1); }
      free(program_buffer);
      err = clBuildProgram(program, 0, NULL, NULL, NULL, NULL);
      if (err < 0) {
          size_t log_size;
          clGetProgramBuildInfo(program, dev, CL_PROGRAM_BUILD_LOG, 0, NULL, &log_size);
          char *program_log = (char *)malloc(log_size + 1);
          program_log[log_size] = '\0';
          clGetProgramBuildInfo(program, dev, CL_PROGRAM_BUILD_LOG, log_size + 1, program_log, NULL);
          printf("%s\n", program_log);
          free(program_log);
          exit(1);
      }
      return program;
  }
  \<close>
  The character buffers for the file and for the log are local to the function and
  have no part in the state.
\<close>

definition build_program :: "world \<Rightarrow> string \<Rightarrow> state \<Rightarrow> unit outcome" where
  "build_program w filename s =
     (if \<not> fopen w filename then Exit 1 (log (Perror ''Couldn't find the program file'') s)
      else
        let s = log (Create Program) s;
            s = s\<lparr>err := clCreateProgramWithSource w\<rparr>
        in if err s < 0 then Exit 1 (log (Perror ''Couldn't create the program'') s)
           else
             let s = log (Call BuildProgram) s;
                 s = s\<lparr>err := clBuildProgram w\<rparr>
             in if err s < 0
                then let s = log (Call GetProgramBuildInfo) s;
                         s = log (Call GetProgramBuildInfo) s;
                         s = log (Printf (clGetProgramBuildInfo w @ newline)) s
                     in Exit 1 s
                else Return () s)"

subsection \<open>Device, context, queue and kernel\<close>

text \<open>
  \<^verbatim>\<open>
  void setup_openCL_device_context_queue_kernel(char *filename, char *kernelname) {
      device_id = create_device();
      context = clCreateContext(NULL, 1, &device_id, NULL, NULL, &err);
      if (err < 0) { perror("Couldn't create a context"); exit(1); }
      program = build_program(context, device_id, filename);
      queue = clCreateCommandQueueWithProperties(context, device_id, 0, &err);
      if (err < 0) { perror("Couldn't create a command queue"); exit(1); }
      kernel = clCreateKernel(program, kernelname, &err);
      if (err < 0) { perror("Couldn't create a kernel"); exit(1); }
  }
  \<close>
\<close>

definition setup_openCL_device_context_queue_kernel ::
  "world \<Rightarrow> string \<Rightarrow> string \<Rightarrow> state \<Rightarrow> unit outcome" where
  "setup_openCL_device_context_queue_kernel w filename kernelname s =
     (case create_device w s of
        Exit c s \<Rightarrow> Exit c s
      | Return dev s \<Rightarrow>
          let s = s\<lparr>device_id := dev\<rparr>;
              s = log (Create Context) s;
              s = s\<lparr>err := clCreateContext w\<rparr>
          in if err s < 0 then Exit 1 (log (Perror ''Couldn't create a context'') s)
             else
               (case build_program w filename s of
                  Exit c s \<Rightarrow> Exit c s
                | Return u s \<Rightarrow>
                    let s = log (Create Queue) s;
                        s = s\<lparr>err := clCreateCommandQueueWithProperties w\<rparr>
                    in if err s < 0 then Exit 1 (log (Perror ''Couldn't create a command queue'') s)
                       else
                         let s = log (Create Kernel) s;
                             s = s\<lparr>err := clCreateKernel w\<rparr>
                         in if err s < 0 then Exit 1 (log (Perror ''Couldn't create a kernel'') s)
                            else Return () s))"

subsection \<open>Device buffers and kernel arguments\<close>

text \<open>
  \<^verbatim>\<open>SZ * sizeof(int)\<close> is computed in \<^verbatim>\<open>size_t\<close> (64 bits, unsigned): the \<^verbatim>\<open>int\<close> is
  sign-extended and the product wraps. \<open>transfer_cells\<close> is that number of bytes counted
  in \<^verbatim>\<open>int\<close> cells. A transfer copies the cells when the buffer handle is not \<^verbatim>\<open>NULL\<close>
  and the call returns \<^verbatim>\<open>CL_SUCCESS\<close>, and has no effect otherwise.
\<close>

definition transfer_cells :: "cint \<Rightarrow> nat" where
  "transfer_cells sz = unat ((scast sz :: 64 word) * 4) div 4"

definition write_buffer :: "world \<Rightarrow> buffer \<Rightarrow> ptr \<Rightarrow> state \<Rightarrow> state" where
  "write_buffer w b p s =
     (let s = log (Call (EnqueueWriteBuffer b)) s
      in if handle s b \<and> clEnqueueWriteBuffer w b = CL_SUCCESS
         then s\<lparr>dmem := (dmem s)(b := (\<lambda>k. if k < transfer_cells (SZ s) then mem s (p + int k)
                                             else dmem s b k))\<rparr>
         else s)"

definition read_buffer :: "world \<Rightarrow> buffer \<Rightarrow> ptr \<Rightarrow> state \<Rightarrow> state" where
  "read_buffer w b p s =
     (let s = log (Call EnqueueReadBuffer) s
      in if handle s b \<and> clEnqueueReadBuffer w = CL_SUCCESS
         then s\<lparr>mem := (\<lambda>q. if p \<le> q \<and> q < p + int (transfer_cells (SZ s))
                              then dmem s b (nat (q - p)) else mem s q)\<rparr>
         else s)"

text \<open>
  \<^verbatim>\<open>
  void setup_kernel_memory() {
      bufV1 = clCreateBuffer(context, CL_MEM_READ_WRITE, SZ * sizeof(int), NULL, NULL);
      bufV2 = clCreateBuffer(context, CL_MEM_READ_WRITE, SZ * sizeof(int), NULL, NULL);
      bufV_out = clCreateBuffer(context, CL_MEM_READ_WRITE, SZ * sizeof(int), NULL, NULL);
      clEnqueueWriteBuffer(queue, bufV1, CL_TRUE, 0, SZ * sizeof(int), &v1[0], 0, NULL, NULL);
      clEnqueueWriteBuffer(queue, bufV2, CL_TRUE, 0, SZ * sizeof(int), &v2[0], 0, NULL, NULL);
  }
  \<close>
  No result of these five calls is looked at.
\<close>

definition create_buffer :: "world \<Rightarrow> buffer \<Rightarrow> state \<Rightarrow> state" where
  "create_buffer w b s = (log (Create (Buffer b)) s)\<lparr>handle := (handle s)(b := clCreateBuffer w b)\<rparr>"

definition setup_kernel_memory :: "world \<Rightarrow> state \<Rightarrow> state" where
  "setup_kernel_memory w s =
     (let s = create_buffer w BufV1 s;
          s = create_buffer w BufV2 s;
          s = create_buffer w BufV_out s;
          s = write_buffer w BufV1 (v1 s) s
      in write_buffer w BufV2 (v2 s) s)"

text \<open>
  \<^verbatim>\<open>
  void copy_kernel_args() {
      clSetKernelArg(kernel, 0, sizeof(int), (void *)&SZ);
      clSetKernelArg(kernel, 1, sizeof(cl_mem), (void *)&bufV1);
      clSetKernelArg(kernel, 2, sizeof(cl_mem), (void *)&bufV2);
      clSetKernelArg(kernel, 3, sizeof(cl_mem), (void *)&bufV_out);
      if (err < 0) { perror("Couldn't set kernel arguments"); exit(1); }
  }
  \<close>
  The four results are dropped: \<^verbatim>\<open>err\<close> still holds what the last call before
  assigned to it. A call that returns \<^verbatim>\<open>CL_SUCCESS\<close> binds the argument.
\<close>

definition set_kernel_arg :: "world \<Rightarrow> nat \<Rightarrow> kernel_arg \<Rightarrow> state \<Rightarrow> state" where
  "set_kernel_arg w k a s =
     (let s = log (Call (SetKernelArg k)) s
      in if clSetKernelArg w k = CL_SUCCESS
         then s\<lparr>kernel_args := (kernel_args s)(k := Some a)\<rparr>
         else s)"

definition copy_kernel_args :: "world \<Rightarrow> state \<Rightarrow> unit outcome" where
  "copy_kernel_args w s =
     (let s = set_kernel_arg w 0 (IntArg (SZ s)) s;
          s = set_kernel_arg w 1 (MemArg BufV1) s;
          s = set_kernel_arg w 2 (MemArg BufV2) s;
          s = set_kernel_arg w 3 (MemArg BufV_out) s
      in if err s < 0 then Exit 1 (log (Perror ''Couldn't set kernel arguments'') s)
         else Return () s)"

subsection \<open>Dispatch\<close>

text \<open>
  \<^verbatim>\<open>
  size_t global[1] = {(size_t)SZ};
  clEnqueueNDRangeKernel(queue, kernel, 1, NULL, global, NULL, 0, NULL, &event);
  clWaitForEvents(1, &event);
  \<close>
  When the call returns \<^verbatim>\<open>CL_SUCCESS\<close>, the four arguments are bound and the three
  buffers exist, the device runs one work item for each global id below \<open>global\<close>;
  their work is done when the wait returns. Otherwise nothing runs.
\<close>

definition global_size :: "cint \<Rightarrow> nat" where
  "global_size sz = unat (scast sz :: 64 word)"

definition enqueue_kernel :: "world \<Rightarrow> nat \<Rightarrow> state \<Rightarrow> state" where
  "enqueue_kernel w global s =
     (let s = log (Call EnqueueNDRangeKernel) s
      in if clEnqueueNDRangeKernel w = CL_SUCCESS
         then (case (kernel_args s 0, kernel_args s 1, kernel_args s 2, kernel_args s 3) of
                 (Some (IntArg n), Some (MemArg a), Some (MemArg b), Some (MemArg out)) \<Rightarrow>
                   if handle s a \<and> handle s b \<and> handle s out
                   then s\<lparr>dmem := fold (vector_add_ocl n a b out) [0..<global] (dmem s)\<rparr>
                   else s
               | _ \<Rightarrow> s)
         else s)"

subsection \<open>Release\<close>

text \<open>
  \<^verbatim>\<open>
  void free_memory() {
      // Release OpenCL objects in reverse order of creation
      clReleaseMemObject(bufV1);  clReleaseMemObject(bufV2);  clReleaseMemObject(bufV_out);
      clReleaseKernel(kernel);  clReleaseCommandQueue(queue);
      clReleaseProgram(program);  clReleaseContext(context);
      free(v1);  free(v2);  free(v_out);
  }
  \<close>
\<close>

definition free_memory :: "state \<Rightarrow> state" where
  "free_memory s =
     (let s = log (Release (Buffer BufV1)) s;
          s = log (Release (Buffer BufV2)) s;
          s = log (Release (Buffer BufV_out)) s;
          s = log (Release Kernel) s;
          s = log (Release Queue) s;
          s = log (Release Program) s;
          s = log (Release Context) s;
          s = log (Free (v1 s)) s;
          s = log (Free (v2 s)) s
      in log (Free (v_out s)) s)"

subsection \<open>main\<close>

text \<open>
  \<open>offload\<close> is the part of \<^verbatim>\<open>main\<close> from the set-up of the device to the copy of the
  result back to the host:
  \<^verbatim>\<open>
  setup_openCL_device_context_queue_kernel((char *)"./vector_ops_ocl.cl", (char *)"vector_add_ocl");
  setup_kernel_memory();
  copy_kernel_args();
  clEnqueueNDRangeKernel(queue, kernel, 1, NULL, global, NULL, 0, NULL, &event);
  clWaitForEvents(1, &event);
  clEnqueueReadBuffer(queue, bufV_out, CL_TRUE, 0, SZ * sizeof(int), &v_out[0], 0, NULL, NULL);
  \<close>
  \<open>opencl_main\<close> is the whole of \<^verbatim>\<open>main\<close>, as the exit code and the final state.
\<close>

definition offload :: "world \<Rightarrow> state \<Rightarrow> unit outcome" where
  "offload w s =
     (let global = global_size (SZ s)
      in case setup_openCL_device_context_queue_kernel w ''./vector_ops_ocl.cl'' ''vector_add_ocl'' s of
           Exit c s \<Rightarrow> Exit c s
         | Return u s \<Rightarrow>
             let s = setup_kernel_memory w s
             in case copy_kernel_args w s of
                  Exit c s \<Rightarrow> Exit c s
                | Return u s \<Rightarrow>
                    let s = enqueue_kernel w global s;
                        s = log (Call WaitForEvents) s
                    in Return () (read_buffer w BufV_out (v_out s) s))"

definition opencl_main :: "world \<Rightarrow> int \<times> state" where
  "opencl_main w =
     (let s = parse_args w (start w);
          s = init_vectors w s;
          s = print_inputs s
      in case offload w s of
           Exit c s \<Rightarrow> (c, s)
         | Return u s \<Rightarrow>
             let s = log (Printf (''Vector v_out (OpenCL):'' @ newline)) s;
                 s = print (v_out s) (SZ s) s;
                 s = log (Printf (''OpenCL Kernel Execution Time: '' @ elapsed w @ '' ms'' @ newline)) s;
                 s = free_memory s
             in (0, s))"

text \<open>
  The state of the OpenCL program when the three vectors are made and the two inputs are
  printed, which is where \<open>offload\<close> starts; the state of the OpenMP program at the
  same point, where \<open>vector_add_openmp\<close> is called; and the vector length of a run.
\<close>

definition inputs :: "world \<Rightarrow> state" where
  "inputs w = print_inputs (init_vectors w (parse_args w (start w)))"

definition openmp_inputs :: "world \<Rightarrow> state" where
  "openmp_inputs w =
     print_inputs (init_vectors w
       (log (Printf (''Running OpenMP implementation with ''
              @ show_int (sint (omp_get_max_threads w)) @ '' threads'' @ newline))
          (parse_args w (start w))))"

definition vector_length :: "world \<Rightarrow> cint" where
  "vector_length w = SZ (parse_args w (start w))"

section \<open>Observing a run\<close>

text \<open>
  What an outcome is: the exit code when the process has exited, the value when the
  function has returned, and the state in both cases.
\<close>

fun exit_code :: "'a outcome \<Rightarrow> int option" where
  "exit_code (Exit c s) = Some c"
| "exit_code (Return x s) = None"

fun returned :: "'a outcome \<Rightarrow> 'a option" where
  "returned (Exit c s) = None"
| "returned (Return x s) = Some x"

fun final :: "'a outcome \<Rightarrow> state" where
  "final (Exit c s) = s"
| "final (Return x s) = s"

text \<open>The events a step has added to the trace of the state \<open>s\<close> it started from.\<close>

definition new_events :: "state \<Rightarrow> state \<Rightarrow> event list" where
  "new_events s s' = drop (length (trace s)) (trace s')"

text \<open>The OpenCL objects a trace creates, and those it releases, in order.\<close>

fun created :: "event list \<Rightarrow> cl_object list" where
  "created [] = []"
| "created (Create x # es) = x # created es"
| "created (e # es) = created es"

fun released :: "event list \<Rightarrow> cl_object list" where
  "released [] = []"
| "released (Release x # es) = x # released es"
| "released (e # es) = released es"

datatype kind = MemObject | KernelObject | QueueObject | ProgramObject | ContextObject

fun kind_of :: "cl_object \<Rightarrow> kind" where
  "kind_of (Buffer b) = MemObject"
| "kind_of Kernel = KernelObject"
| "kind_of Queue = QueueObject"
| "kind_of Program = ProgramObject"
| "kind_of Context = ContextObject"

text \<open>A diagnostic: a message to \<^verbatim>\<open>perror\<close>, or text on standard output.\<close>

fun diagnostic :: "event \<Rightarrow> bool" where
  "diagnostic (Perror t) = True"
| "diagnostic (Printf t) = True"
| "diagnostic e = False"

text \<open>
  The conditions \<^verbatim>\<open>main\<close> of the OpenCL program tests on its way, as conditions on the
  world: a device is found (the GPU query, or the CPU query that replaces it when the
  GPU query returns \<^verbatim>\<open>CL_DEVICE_NOT_FOUND\<close>, does not fail); the program build is reached
  (every tested call before \<^verbatim>\<open>clBuildProgram\<close> passes); the set-up passes (every
  tested call does).
\<close>

definition device_found :: "world \<Rightarrow> bool" where
  "device_found w =
     (if fst (clGetDeviceIDs w CL_DEVICE_TYPE_GPU) = CL_DEVICE_NOT_FOUND
      then 0 \<le> fst (clGetDeviceIDs w CL_DEVICE_TYPE_CPU)
      else 0 \<le> fst (clGetDeviceIDs w CL_DEVICE_TYPE_GPU))"

definition build_reached :: "world \<Rightarrow> bool" where
  "build_reached w =
     (0 \<le> clGetPlatformIDs w \<and> device_found w \<and> 0 \<le> clCreateContext w
      \<and> fopen w ''./vector_ops_ocl.cl'' \<and> 0 \<le> clCreateProgramWithSource w)"

definition setup_ok :: "world \<Rightarrow> bool" where
  "setup_ok w =
     (build_reached w \<and> 0 \<le> clBuildProgram w
      \<and> 0 \<le> clCreateCommandQueueWithProperties w \<and> 0 \<le> clCreateKernel w)"

text \<open>
  When the set-up passes: the device it selects and the events it adds to the trace.
  \<open>setup_event\<close> holds of the events a set-up can add, whether it passes or not.
\<close>

definition selected_device :: "world \<Rightarrow> nat" where
  "selected_device w =
     (if fst (clGetDeviceIDs w CL_DEVICE_TYPE_GPU) = CL_DEVICE_NOT_FOUND
      then snd (clGetDeviceIDs w CL_DEVICE_TYPE_CPU)
      else snd (clGetDeviceIDs w CL_DEVICE_TYPE_GPU))"

definition device_events :: "world \<Rightarrow> event list" where
  "device_events w =
     [Call GetPlatformIDs, Call (GetDeviceIDs CL_DEVICE_TYPE_GPU)]
     @ (if fst (clGetDeviceIDs w CL_DEVICE_TYPE_GPU) = CL_DEVICE_NOT_FOUND
        then [Printf (''GPU not found, falling back to CPU'' @ newline),
              Call (GetDeviceIDs CL_DEVICE_TYPE_CPU)]
        else [])"

definition setup_events :: "world \<Rightarrow> event list" where
  "setup_events w =
     device_events w @ [Create Context, Create Program, Call BuildProgram, Create Queue, Create Kernel]"

fun setup_event :: "event \<Rightarrow> bool" where
  "setup_event (Printf t) = True"
| "setup_event (Perror t) = True"
| "setup_event (Call GetPlatformIDs) = True"
| "setup_event (Call (GetDeviceIDs t)) = True"
| "setup_event (Call BuildProgram) = True"
| "setup_event (Call GetProgramBuildInfo) = True"
| "setup_event (Create Context) = True"
| "setup_event (Create Program) = True"
| "setup_event (Create Queue) = True"
| "setup_event (Create Kernel) = True"
| "setup_event e = False"

text \<open>
  Every call of \<open>offload\<close> that acts on data does what it is asked: the three buffer
  handles are not \<^verbatim>\<open>NULL\<close>, and the two uploads, the four argument bindings, the
  dispatch and the read-back return \<^verbatim>\<open>CL_SUCCESS\<close>.
\<close>

definition transfers_ok :: "world \<Rightarrow> bool" where
  "transfers_ok w =
     (clCreateBuffer w BufV1 \<and> clCreateBuffer w BufV2 \<and> clCreateBuffer w BufV_out
      \<and> clEnqueueWriteBuffer w BufV1 = CL_SUCCESS \<and> clEnqueueWriteBuffer w BufV2 = CL_SUCCESS
      \<and> clSetKernelArg w 0 = CL_SUCCESS \<and> clSetKernelArg w 1 = CL_SUCCESS
      \<and> clSetKernelArg w 2 = CL_SUCCESS \<and> clSetKernelArg w 3 = CL_SUCCESS
      \<and> clEnqueueNDRangeKernel w = CL_SUCCESS \<and> clEnqueueReadBuffer w = CL_SUCCESS)"

text \<open>
  The three vectors of a run are blocks of their own: the blocks of \<open>n\<close> cells at the
  first three pointers \<^verbatim>\<open>malloc\<close> returns share no cell.
\<close>

definition vectors_apart :: "world \<Rightarrow> int \<Rightarrow> bool" where
  "vectors_apart w n =
     (disjoint_blocks (malloc w 0) (malloc w 1) n \<and> disjoint_blocks (malloc w 0) (malloc w 2) n
      \<and> disjoint_blocks (malloc w 1) (malloc w 2) n)"

section \<open>Example worlds\<close>

text \<open>
  \<open>libc_atoi\<close> reads a decimal integer as \<^verbatim>\<open>atoi\<close> does: white space is skipped, a sign
  may come first, the digits end at the first other character, and no digit at all
  gives 0. In \<open>world_ok\<close> every call succeeds, the program gets the argument \<^verbatim>\<open>3\<close>,
  \<^verbatim>\<open>rand\<close> returns 7, 20, 33, ... and the \<open>k\<close>-th vector is at cell \<open>100 * (k + 1)\<close>.
\<close>

fun atoi_digits :: "int \<Rightarrow> string \<Rightarrow> int" where
  "atoi_digits acc [] = acc"
| "atoi_digits acc (c # cs) =
     (if c \<in> set ''0123456789'' then atoi_digits (10 * acc + (int (of_char c) - 48)) cs else acc)"

definition libc_atoi :: "string \<Rightarrow> cint" where
  "libc_atoi t =
     (case dropWhile (\<lambda>c. c = CHR '' '' \<or> c = CHR 0x09 \<or> c = CHR 0x0A) t of
        [] \<Rightarrow> 0
      | c # cs \<Rightarrow>
          if c = CHR ''-'' then word_of_int (- atoi_digits 0 cs)
          else if c = CHR ''+'' then word_of_int (atoi_digits 0 cs)
          else word_of_int (atoi_digits 0 (c # cs)))"

definition world_ok :: world where
  "world_ok =
     \<lparr>argv = [''./vector_add'', ''3''], atoi = libc_atoi,
      rand = (\<lambda>k. word_of_int (int k * 13 + 7)), malloc = (\<lambda>k. 100 * (int k + 1)),
      memory0 = (\<lambda>p. 0), omp_get_max_threads = 4, elapsed = ''0.250000'',
      clGetPlatformIDs = 0, clGetDeviceIDs = (\<lambda>t. case t of CL_DEVICE_TYPE_GPU \<Rightarrow> (0, 1) | CL_DEVICE_TYPE_CPU \<Rightarrow> (0, 2)),
      clCreateContext = 0, fopen = (\<lambda>f. True), clCreateProgramWithSource = 0,
      clBuildProgram = 0, clGetProgramBuildInfo = [],
      clCreateCommandQueueWithProperties = 0, clCreateKernel = 0,
      clCreateBuffer = (\<lambda>b. True), device0 = (\<lambda>b k. 0),
      clEnqueueWriteBuffer = (\<lambda>b. 0), clSetKernelArg = (\<lambda>k. 0),
      clEnqueueNDRangeKernel = 0, clWaitForEvents = 0, clEnqueueReadBuffer = 0\<rparr>"

text \<open>
  The same world with no GPU (the GPU query returns \<^verbatim>\<open>CL_DEVICE_NOT_FOUND\<close>), and with
  no device at all.
\<close>

definition world_cpu_only :: world where
  "world_cpu_only =
     world_ok\<lparr>clGetDeviceIDs := (\<lambda>t. case t of CL_DEVICE_TYPE_GPU \<Rightarrow> (- 1, 0) | CL_DEVICE_TYPE_CPU \<Rightarrow> (0, 2))\<rparr>"

definition world_no_device :: world where
  "world_no_device = world_ok\<lparr>clGetDeviceIDs := (\<lambda>t. (- 1, 0))\<rparr>"

text \<open>
  A world in which no device buffer can be allocated: \<^verbatim>\<open>clCreateBuffer\<close> returns
  \<^verbatim>\<open>NULL\<close> three times, and the calls that are given the \<^verbatim>\<open>NULL\<close> handles fail
  (\<^verbatim>\<open>CL_INVALID_MEM_OBJECT\<close> is -38, \<^verbatim>\<open>CL_INVALID_KERNEL_ARGS\<close> is -52). And a world in
  which the kernel source does not compile (\<^verbatim>\<open>CL_BUILD_PROGRAM_FAILURE\<close> is -11).
\<close>

definition world_no_buffers :: world where
  "world_no_buffers =
     world_ok\<lparr>clCreateBuffer := (\<lambda>b. False), clEnqueueWriteBuffer := (\<lambda>b. - 38),
       clEnqueueNDRangeKernel := - 52, clEnqueueReadBuffer := - 38\<rparr>"

definition world_build_fails :: world where
  "world_build_fails =
     world_ok\<lparr>clBuildProgram := - 11, clGetProgramBuildInfo := ''error: use of undeclared identifier'' \<rparr>"

text \<open>
  Another world with the same arguments and the same random sequence: memory starts with
  other contents, \<^verbatim>\<open>malloc\<close> returns other pointers, and no OpenCL platform is found.
\<close>

definition world_other :: world where
  "world_other = world_ok\<lparr>malloc := (\<lambda>k. 5000 - 10 * int k), memory0 := (\<lambda>p. 9),
     clGetPlatformIDs := - 1\<rparr>"

section \<open>Vector addition on the host\<close>

declare vector_add_loop.simps [simp del]

lemma sint_succ:
  fixes i :: cint
  assumes "i <s sz"
  shows "sint (i + 1) = sint i + 1"
proof -
  have b: "sint sz < 2 ^ 31" "- (2 ^ 31) \<le> sint i"
    using sint_lt [of sz] sint_ge [of i] by simp_all
  have "sint i < sint sz"
    using assms by (simp add: word_sless_alt)
  with b have "- (2 ^ 31) \<le> sint i + 1" "sint i + 1 < 2 ^ 31"
    by linarith+
  then have "signed_take_bit 31 (sint i + 1) = sint i + 1"
    by (simp add: signed_take_bit_int_eq_self)
  then show ?thesis
    by (simp add: sint_word_add)
qed

lemma sint_cell:
  assumes "0 \<le> k" "k < sint (sz :: cint)"
  shows "sint (word_of_int k :: cint) = k"
proof -
  have "sint sz < 2 ^ 31"
    using sint_lt [of sz] by simp
  with assms have "- (2 ^ 31) \<le> k" "k < 2 ^ 31"
    by linarith+
  then show ?thesis
    by (simp add: signed_take_bit_int_eq_self sint_sbintrunc')
qed

lemma vector_add_loop_outside:
  "\<not> (out + sint i \<le> p \<and> p < out + sint sz) \<Longrightarrow>
   vector_add_loop a b out sz i m p = m p"
proof (induction a b out sz i m rule: vector_add_loop.induct)
  case (1 a b out sz i m)
  show ?case
  proof (cases "i <s sz")
    case True
    then have lt: "sint i < sint sz" by (simp add: word_sless_alt)
    have "vector_add_loop a b out sz (i + 1) (vector_add_iter a b out i m) p
          = vector_add_iter a b out i m p"
      using "1.IH" [OF True] "1.prems" by (simp add: sint_succ [OF True])
    also have "\<dots> = m p"
      using "1.prems" lt by (auto simp: vector_add_iter_def)
    finally show ?thesis
      using True by (subst vector_add_loop.simps) simp
  next
    case False
    then show ?thesis by (subst vector_add_loop.simps) simp
  qed
qed

lemma vector_add_loop_sum:
  "0 \<le> sint i \<Longrightarrow> disjoint_blocks out a (sint sz) \<Longrightarrow> disjoint_blocks out b (sint sz) \<Longrightarrow>
   sint i \<le> k \<Longrightarrow> k < sint sz \<Longrightarrow>
   vector_add_loop a b out sz i m (out + k) = m (a + k) + m (b + k)"
proof (induction a b out sz i m rule: vector_add_loop.induct)
  case (1 a b out sz i m)
  from "1.prems" have lt: "sint i < sint sz" by linarith
  then have True: "i <s sz" by (simp add: word_sless_alt)
  have succ: "sint (i + 1) = sint i + 1" by (rule sint_succ [OF True])
  let ?m = "vector_add_iter a b out i m"
  have unf: "vector_add_loop a b out sz i m = vector_add_loop a b out sz (i + 1) ?m"
    using True by (subst vector_add_loop.simps) simp
  show ?case
  proof (cases "k = sint i")
    case True
    have "vector_add_loop a b out sz (i + 1) ?m (out + k) = ?m (out + k)"
      by (rule vector_add_loop_outside) (simp add: succ True)
    then show ?thesis
      by (simp add: unf True vector_add_iter_def)
  next
    case False
    have "vector_add_loop a b out sz (i + 1) ?m (out + k) = ?m (a + k) + ?m (b + k)"
      using "1.IH" [OF \<open>i <s sz\<close>] "1.prems" False by (simp add: succ)
    moreover have "?m (a + k) = m (a + k)" "?m (b + k) = m (b + k)"
      using "1.prems" by (auto simp: vector_add_iter_def disjoint_blocks_def)
    ultimately show ?thesis
      by (simp add: unf)
  qed
qed

lemma vector_add_loop_fold:
  "0 \<le> sint i \<Longrightarrow> vector_add_loop a b out sz i m =
     fold (vector_add_iter a b out) (map word_of_int [sint i .. sint sz - 1]) m"
proof (induction a b out sz i m rule: vector_add_loop.induct)
  case (1 a b out sz i m)
  show ?case
  proof (cases "i <s sz")
    case True
    then have lt: "sint i < sint sz" by (simp add: word_sless_alt)
    have succ: "sint (i + 1) = sint i + 1" by (rule sint_succ [OF True])
    have "[sint i .. sint sz - 1] = sint i # [sint i + 1 .. sint sz - 1]"
      using lt by (simp add: upto_rec1)
    then show ?thesis
      using "1.IH" [OF True] "1.prems" True
      by (subst vector_add_loop.simps) (simp add: succ)
  next
    case False
    then have "\<not> sint i < sint sz" by (simp add: word_sless_alt)
    then show ?thesis using False by (subst vector_add_loop.simps) simp
  qed
qed

lemma vector_add_openmp_in_order:
  "vector_add_openmp a b out sz m = vector_add_in_order (iterations sz) a b out m"
  by (simp add: vector_add_openmp_def vector_add_in_order_def iterations_def vector_add_loop_fold)

lemma sint_iterations:
  "j \<in> set (iterations sz) \<Longrightarrow> 0 \<le> sint j \<and> sint j < sint sz"
  by (auto simp: iterations_def sint_cell)

lemma vector_add_in_order_cell:
  assumes "\<forall>j \<in> set js. 0 \<le> sint j \<and> sint j < n"
    and "disjoint_blocks out a n" and "disjoint_blocks out b n"
  shows "vector_add_in_order js a b out m p =
     (if p \<in> (\<lambda>j. out + sint j) ` set js then m (a + (p - out)) + m (b + (p - out)) else m p)"
  using assms(1)
proof (induction js arbitrary: p rule: rev_induct)
  case Nil
  then show ?case by (simp add: vector_add_in_order_def)
next
  case (snoc x xs)
  let ?M = "vector_add_in_order xs a b out m"
  have x: "0 \<le> sint x" "sint x < n" using snoc.prems by simp_all
  have unf: "vector_add_in_order (xs @ [x]) a b out m = vector_add_iter a b out x ?M"
    by (simp add: vector_add_in_order_def)
  have IH: "?M q = (if q \<in> (\<lambda>j. out + sint j) ` set xs then m (a + (q - out)) + m (b + (q - out)) else m q)" for q
    using snoc.IH snoc.prems by simp
  have na: "a + sint x \<notin> (\<lambda>j. out + sint j) ` set xs"
    using assms(2) x snoc.prems by (auto simp: disjoint_blocks_def)
  have nb: "b + sint x \<notin> (\<lambda>j. out + sint j) ` set xs"
    using assms(3) x snoc.prems by (auto simp: disjoint_blocks_def)
  have "?M (a + sint x) = m (a + sint x)" "?M (b + sint x) = m (b + sint x)"
    using na nb by (simp_all only: IH if_False)
  then show ?case
    by (auto simp: unf vector_add_iter_def IH)
qed

lemma vector_add_in_order_outside:
  "\<forall>j \<in> set js. p \<noteq> out + sint j \<Longrightarrow> vector_add_in_order js a b out m p = m p"
proof (induction js arbitrary: m)
  case Nil
  then show ?case by (simp add: vector_add_in_order_def)
next
  case (Cons x xs)
  have "vector_add_in_order (x # xs) a b out m p =
      vector_add_in_order xs a b out (vector_add_iter a b out x m) p"
    by (simp add: vector_add_in_order_def)
  also have "\<dots> = vector_add_iter a b out x m p"
    using Cons.prems by (intro Cons.IH) simp
  also have "\<dots> = m p"
    using Cons.prems by (simp add: vector_add_iter_def)
  finally show ?case .
qed

lemma vector_add_any_order:
  assumes "set js = set (iterations sz)"
    and "disjoint_blocks out a (sint sz)" and "disjoint_blocks out b (sint sz)"
  shows "vector_add_in_order js a b out m = vector_add_openmp a b out sz m"
proof
  fix p
  have 1: "\<forall>j \<in> set js. 0 \<le> sint j \<and> sint j < sint sz"
    using assms(1) sint_iterations by blast
  have 2: "\<forall>j \<in> set (iterations sz). 0 \<le> sint j \<and> sint j < sint sz"
    using sint_iterations by blast
  show "vector_add_in_order js a b out m p = vector_add_openmp a b out sz m p"
    by (simp only: vector_add_openmp_in_order vector_add_in_order_cell [OF 1 assms(2,3)]
        vector_add_in_order_cell [OF 2 assms(2,3)] assms(1))
qed

text \<open>
  C10. The OpenMP vector addition changes no cell of memory outside the cells
  \<open>out + 0, ..., out + (size - 1)\<close> of the output array. So an input array that is a block
  of its own, sharing no cell with the output block, is left as it was. The loop runs the
  iterations \<open>iterations sz\<close>; when \<open>size \<le> 0\<close> there is none and memory as a whole, the
  three arrays with it, is unchanged. The same cells are the only ones that can change
  when the iterations are run in another order.
\<close>

theorem vector_add_openmp_frame:
  "(\<forall>p. \<not> (out \<le> p \<and> p < out + sint sz) \<longrightarrow> vector_add_openmp a b out sz m p = m p)
   \<and> (\<forall>k. disjoint_blocks out a (sint sz) \<and> 0 \<le> k \<and> k < sint sz \<longrightarrow>
          vector_add_openmp a b out sz m (a + k) = m (a + k))
   \<and> (\<forall>k. disjoint_blocks out b (sint sz) \<and> 0 \<le> k \<and> k < sint sz \<longrightarrow>
          vector_add_openmp a b out sz m (b + k) = m (b + k))
   \<and> vector_add_openmp a b out sz m = vector_add_in_order (iterations sz) a b out m
   \<and> (\<forall>js p. set js = set (iterations sz) \<and> \<not> (out \<le> p \<and> p < out + sint sz) \<longrightarrow>
          vector_add_in_order js a b out m p = m p)
   \<and> (sint sz \<le> 0 \<longrightarrow> iterations sz = [] \<and> vector_add_openmp a b out sz m = m)"
proof -
  have order: "vector_add_in_order js a b out m p = m p"
    if "set js = set (iterations sz)" "\<not> (out \<le> p \<and> p < out + sint sz)" for js p
  proof (rule vector_add_in_order_outside, rule ballI)
    fix j
    assume "j \<in> set js"
    then have "0 \<le> sint j \<and> sint j < sint sz"
      using that(1) sint_iterations by blast
    with that(2) show "p \<noteq> out + sint j"
      by auto
  qed
  have outside: "vector_add_openmp a b out sz m p = m p"
    if "\<not> (out \<le> p \<and> p < out + sint sz)" for p
    using that by (simp add: vector_add_openmp_def vector_add_loop_outside)
  have input: "vector_add_openmp a b out sz m (c + k) = m (c + k)"
    if "disjoint_blocks out c (sint sz)" "0 \<le> k" "k < sint sz" for c k
    using that by (intro outside) (auto simp: disjoint_blocks_def)
  have none: "iterations sz = []" if "sint sz \<le> 0"
    using that by (simp add: iterations_def)
  have same: "vector_add_openmp a b out sz m = m" if "sint sz \<le> 0"
    using that by (intro ext outside) simp
  show ?thesis
    using outside input none same order vector_add_openmp_in_order by blast
qed

theorem vector_add_openmp_frame_witness:
  "vector_add_openmp 0 10 20 3 (\<lambda>p. word_of_int p) 23 = 23
   \<and> vector_add_openmp 0 10 20 3 (\<lambda>p. word_of_int p) 2 = 2
   \<and> vector_add_openmp 0 10 20 3 (\<lambda>p. word_of_int p) 12 = 12
   \<and> iterations (- 2) = []
   \<and> vector_add_openmp 0 10 20 (- 2) (\<lambda>p. word_of_int p) = (\<lambda>p. word_of_int p)"
proof -
  note t = vector_add_openmp_frame [of 20 3 0 10 "\<lambda>p. word_of_int p"]
  note z = vector_add_openmp_frame [of 20 "- 2" 0 10 "\<lambda>p. word_of_int p"]
  have 1: "vector_add_openmp 0 10 20 3 (\<lambda>p. word_of_int p) 23 = 23"
    using t [THEN conjunct1, rule_format, of 23] by simp
  have 2: "vector_add_openmp 0 10 20 3 (\<lambda>p. word_of_int p) 2 = 2"
    using t [THEN conjunct2, THEN conjunct1, rule_format, of 2] by (simp add: disjoint_blocks_def)
  have 3: "vector_add_openmp 0 10 20 3 (\<lambda>p. word_of_int p) 12 = 12"
    using t [THEN conjunct2, THEN conjunct2, THEN conjunct1, rule_format, of 2]
    by (simp add: disjoint_blocks_def)
  have 4: "iterations (- 2) = [] \<and> vector_add_openmp 0 10 20 (- 2) (\<lambda>p. word_of_int p) = (\<lambda>p. word_of_int p)"
  proof -
    have "sint (- 2 :: cint) \<le> 0" by simp
    with z show ?thesis by blast
  qed
  show ?thesis
    using 1 2 3 4 by blast
qed

section \<open>Printing\<close>

declare print_loop.simps [simp del]
declare digits.simps [simp del]

lemma print_loop_concat:
  "print_loop m A i hi = concat (map (\<lambda>k. show_int (sint (m (A + k))) @ '' '') [i .. hi - 1])"
proof (induction m A i hi rule: print_loop.induct)
  case (1 m A i hi)
  show ?case
  proof (cases "i < hi")
    case True
    then have "[i .. hi - 1] = i # [i + 1 .. hi - 1]"
      by (simp add: upto_rec1)
    then show ?thesis
      using "1.IH" [OF True] True by (subst print_loop.simps) simp
  next
    case False
    then show ?thesis
      by (subst print_loop.simps) simp
  qed
qed

lemma upto_five: "[n - 5 .. n - 1] = [n - 5, n - 4, n - 3, n - 2, n - (1 :: int)]"
  by (simp add: upto_rec1)

lemma upto_first_five: "[0 .. 4] = [0, 1, 2, 3, 4 :: int]"
  by (simp add: upto_rec1)

text \<open>
  C6. For every array and size, one call of print writes: when \<open>size \<le> 15\<close>, the
  cells \<open>A[0], ..., A[size - 1]\<close> in order, each in decimal and followed by a space;
  when \<open>size > 15\<close>, the five cells \<open>A[0], ..., A[4]\<close>, then the fixed marker
  \<open>'' ..... ''\<close>, then the five cells \<open>A[size - 5], ..., A[size - 1]\<close>. In both cases the
  closing line of dashes follows.
\<close>

theorem print_shows:
  "print_text m A sz =
     (if sint sz \<le> 15
      then concat (map (\<lambda>k. show_int (sint (m (A + k))) @ '' '') [0 .. sint sz - 1])
      else concat (map (\<lambda>k. show_int (sint (m (A + k))) @ '' '') [0, 1, 2, 3, 4])
           @ '' ..... ''
           @ concat (map (\<lambda>k. show_int (sint (m (A + k))) @ '' '')
               [sint sz - 5, sint sz - 4, sint sz - 3, sint sz - 2, sint sz - 1]))
     @ newline @ ''----------------------------'' @ newline
   \<and> print A sz s = s\<lparr>trace := trace s @ [Printf (print_text (mem s) A sz)]\<rparr>"
proof -
  have five: "print_loop m A 0 5 = concat (map (\<lambda>k. show_int (sint (m (A + k))) @ '' '') [0, 1, 2, 3, 4])"
    using upto_first_five by (simp only: print_loop_concat) simp
  have lastfive: "print_loop m A (sint sz - 5) (sint sz) = concat (map (\<lambda>k. show_int (sint (m (A + k))) @ '' '')
               [sint sz - 5, sint sz - 4, sint sz - 3, sint sz - 2, sint sz - 1])"
    using upto_five [of "sint sz"] by (simp only: print_loop_concat)
  have gt: "(15 <s sz) = (\<not> sint sz \<le> 15)"
    by (auto simp: word_sless_alt)
  note all = print_loop_concat [of m A 0 "sint sz"]
  show ?thesis
    by (simp add: print_text_def print_def log_def PRINT_def gt five lastfive all)
qed

text \<open>The two examples of the spec: five elements, and twenty elements \<open>2 * i\<close>.\<close>

lemma print_example_small:
  "print_text (\<lambda>p. [12, 3, 10, 6, 8] ! nat p) 0 5 = ''12 3 10 6 8 '' @ newline @ ''----------------------------'' @ newline"
  by code_simp

lemma print_example_large:
  "print_text (\<lambda>p. 2 * word_of_int p) 0 20
     = ''0 2 4 6 8  ..... 30 32 34 36 38 '' @ newline @ ''----------------------------'' @ newline"
  by code_simp

section \<open>Device selection\<close>

lemma create_device_cases:
  "create_device w s =
     (if clGetPlatformIDs w < 0
      then Exit 1 (s\<lparr>err := clGetPlatformIDs w,
             trace := trace s @ [Call GetPlatformIDs, Perror ''Couldn't identify a platform'']\<rparr>)
      else if fst (clGetDeviceIDs w CL_DEVICE_TYPE_GPU) = CL_DEVICE_NOT_FOUND
      then (if fst (clGetDeviceIDs w CL_DEVICE_TYPE_CPU) < 0
            then Exit 1 (s\<lparr>err := fst (clGetDeviceIDs w CL_DEVICE_TYPE_CPU),
                   trace := trace s @ [Call GetPlatformIDs, Call (GetDeviceIDs CL_DEVICE_TYPE_GPU),
                     Printf (''GPU not found, falling back to CPU'' @ newline),
                     Call (GetDeviceIDs CL_DEVICE_TYPE_CPU), Perror ''Couldn't access any devices'']\<rparr>)
            else Return (snd (clGetDeviceIDs w CL_DEVICE_TYPE_CPU))
                   (s\<lparr>err := fst (clGetDeviceIDs w CL_DEVICE_TYPE_CPU),
                   trace := trace s @ [Call GetPlatformIDs, Call (GetDeviceIDs CL_DEVICE_TYPE_GPU),
                     Printf (''GPU not found, falling back to CPU'' @ newline),
                     Call (GetDeviceIDs CL_DEVICE_TYPE_CPU)]\<rparr>))
      else if fst (clGetDeviceIDs w CL_DEVICE_TYPE_GPU) < 0
      then Exit 1 (s\<lparr>err := fst (clGetDeviceIDs w CL_DEVICE_TYPE_GPU),
             trace := trace s @ [Call GetPlatformIDs, Call (GetDeviceIDs CL_DEVICE_TYPE_GPU),
                Perror ''Couldn't access any devices'']\<rparr>)
      else Return (snd (clGetDeviceIDs w CL_DEVICE_TYPE_GPU))
             (s\<lparr>err := fst (clGetDeviceIDs w CL_DEVICE_TYPE_GPU),
               trace := trace s @ [Call GetPlatformIDs, Call (GetDeviceIDs CL_DEVICE_TYPE_GPU)]\<rparr>))"
  by (simp add: create_device_def Let_def log_def case_prod_beta)

text \<open>
  C5. Once the platform is identified, the GPU is asked for first. When the GPU query
  does not fail, its device is the one returned, and the CPU is never asked. The CPU is
  asked only when the GPU query returned \<^verbatim>\<open>CL_DEVICE_NOT_FOUND\<close>, and its device is
  returned when that query does not fail. When neither a GPU nor a CPU is found, or no
  device is found for another reason, the process exits with code 1.
\<close>

theorem create_device_prefers_gpu:
  assumes "0 \<le> clGetPlatformIDs w"
  shows
    "(0 \<le> fst (clGetDeviceIDs w CL_DEVICE_TYPE_GPU) \<longrightarrow>
        returned (create_device w s) = Some (snd (clGetDeviceIDs w CL_DEVICE_TYPE_GPU))
        \<and> new_events s (final (create_device w s)) =
            [Call GetPlatformIDs, Call (GetDeviceIDs CL_DEVICE_TYPE_GPU)])
     \<and> (Call (GetDeviceIDs CL_DEVICE_TYPE_CPU) \<in> set (new_events s (final (create_device w s))) \<longrightarrow>
          fst (clGetDeviceIDs w CL_DEVICE_TYPE_GPU) = CL_DEVICE_NOT_FOUND)
     \<and> (fst (clGetDeviceIDs w CL_DEVICE_TYPE_GPU) = CL_DEVICE_NOT_FOUND
          \<and> 0 \<le> fst (clGetDeviceIDs w CL_DEVICE_TYPE_CPU) \<longrightarrow>
          returned (create_device w s) = Some (snd (clGetDeviceIDs w CL_DEVICE_TYPE_CPU))
          \<and> new_events s (final (create_device w s)) =
              [Call GetPlatformIDs, Call (GetDeviceIDs CL_DEVICE_TYPE_GPU),
               Printf (''GPU not found, falling back to CPU'' @ newline),
               Call (GetDeviceIDs CL_DEVICE_TYPE_CPU)])
     \<and> (fst (clGetDeviceIDs w CL_DEVICE_TYPE_GPU) = CL_DEVICE_NOT_FOUND
          \<and> fst (clGetDeviceIDs w CL_DEVICE_TYPE_CPU) = CL_DEVICE_NOT_FOUND \<longrightarrow>
          exit_code (create_device w s) = Some 1
          \<and> last (trace (final (create_device w s))) = Perror ''Couldn't access any devices'')
     \<and> (\<not> device_found w \<longrightarrow> exit_code (create_device w s) = Some 1)"
  using assms
  by (simp add: create_device_cases new_events_def CL_DEVICE_NOT_FOUND_def device_found_def)

theorem create_device_prefers_gpu_witness:
  "0 \<le> clGetPlatformIDs world_ok
   \<and> returned (create_device world_ok (start world_ok)) = Some 1
   \<and> returned (create_device world_cpu_only (start world_cpu_only)) = Some 2
   \<and> exit_code (create_device world_no_device (start world_no_device)) = Some 1"
proof -
  have p: "0 \<le> clGetPlatformIDs world_ok" "0 \<le> clGetPlatformIDs world_cpu_only"
    "0 \<le> clGetPlatformIDs world_no_device"
    by (simp_all add: world_ok_def world_cpu_only_def world_no_device_def)
  have 1: "returned (create_device world_ok (start world_ok)) = Some 1"
    using create_device_prefers_gpu [OF p(1), of "start world_ok"]
    by (simp add: world_ok_def)
  have 2: "returned (create_device world_cpu_only (start world_cpu_only)) = Some 2"
    using create_device_prefers_gpu [OF p(2), of "start world_cpu_only"]
    by (simp add: world_ok_def world_cpu_only_def CL_DEVICE_NOT_FOUND_def)
  have 3: "exit_code (create_device world_no_device (start world_no_device)) = Some 1"
    using create_device_prefers_gpu [OF p(3), of "start world_no_device"]
    by (simp add: world_ok_def world_no_device_def CL_DEVICE_NOT_FOUND_def)
  show ?thesis
    using p(1) 1 2 3 by blast
qed

section \<open>Steps of the programs, field by field\<close>

declare init_loop.simps [simp del]

lemma log_fields [simp]:
  "trace (log e s) = trace s @ [e]" "SZ (log e s) = SZ s" "mem (log e s) = mem s"
  "rand_calls (log e s) = rand_calls s" "malloc_calls (log e s) = malloc_calls s"
  "err (log e s) = err s" "device_id (log e s) = device_id s"
  "v1 (log e s) = v1 s" "v2 (log e s) = v2 s" "v_out (log e s) = v_out s"
  "handle (log e s) = handle s" "dmem (log e s) = dmem s" "kernel_args (log e s) = kernel_args s"
  by (simp_all add: log_def)

lemma init_loop_fields [simp]:
  "trace (init_loop w A sz i s) = trace s" "SZ (init_loop w A sz i s) = SZ s"
  "malloc_calls (init_loop w A sz i s) = malloc_calls s"
  "err (init_loop w A sz i s) = err s" "device_id (init_loop w A sz i s) = device_id s"
  "v1 (init_loop w A sz i s) = v1 s" "v2 (init_loop w A sz i s) = v2 s"
  "v_out (init_loop w A sz i s) = v_out s"
  "handle (init_loop w A sz i s) = handle s" "dmem (init_loop w A sz i s) = dmem s"
  "kernel_args (init_loop w A sz i s) = kernel_args s"
  by (induction w A sz i s rule: init_loop.induct; subst init_loop.simps; simp)+

lemma init_loop_rand_calls [simp]:
  "rand_calls (init_loop w A sz i s) = rand_calls s + nat (sint sz - i)"
proof (induction w A sz i s rule: init_loop.induct)
  case (1 w A sz i s)
  show ?case
  proof (cases "i < sint sz")
    case True
    then show ?thesis
      using "1.IH" [OF True] by (subst init_loop.simps) (simp add: nat_diff_distrib')
  next
    case False
    then show ?thesis by (subst init_loop.simps) simp
  qed
qed

lemma init_loop_outside:
  "\<not> (A + i \<le> p \<and> p < A + sint sz) \<Longrightarrow> mem (init_loop w A sz i s) p = mem s p"
proof (induction w A sz i s rule: init_loop.induct)
  case (1 w A sz i s)
  show ?case
  proof (cases "i < sint sz")
    case True
    then show ?thesis
      using "1.IH" [OF True] "1.prems" by (subst init_loop.simps) auto
  next
    case False
    then show ?thesis by (subst init_loop.simps) simp
  qed
qed

lemma init_loop_cell:
  "i \<le> k \<Longrightarrow> k < sint sz \<Longrightarrow>
   mem (init_loop w A sz i s) (A + k) =
     word_of_int (sint (rand w (rand_calls s + nat (k - i))) smod 100)"
proof (induction w A sz i s rule: init_loop.induct)
  case (1 w A sz i s)
  from "1.prems" have True: "i < sint sz" by linarith
  let ?s = "s\<lparr>mem := (mem s)(A + i := word_of_int (sint (rand w (rand_calls s)) smod 100)),
                rand_calls := Suc (rand_calls s)\<rparr>"
  have unf: "init_loop w A sz i s = init_loop w A sz (i + 1) ?s"
    using True by (subst init_loop.simps) simp
  show ?case
  proof (cases "k = i")
    case True
    have "mem (init_loop w A sz (i + 1) ?s) (A + k) = mem ?s (A + k)"
      by (rule init_loop_outside) (simp add: True)
    then show ?thesis by (simp add: unf True)
  next
    case False
    then have "rand_calls s + nat (k - i) = Suc (rand_calls s + nat (k - (i + 1)))"
      using "1.prems" by linarith
    then show ?thesis
      using "1.IH" [OF True] "1.prems" False by (simp add: unf)
  qed
qed

lemma init_fields [simp]:
  "fst (init w sz s) = malloc w (malloc_calls s)"
  "trace (snd (init w sz s)) = trace s" "SZ (snd (init w sz s)) = SZ s"
  "malloc_calls (snd (init w sz s)) = Suc (malloc_calls s)"
  "rand_calls (snd (init w sz s)) = rand_calls s + nat (sint sz)"
  "err (snd (init w sz s)) = err s" "device_id (snd (init w sz s)) = device_id s"
  "v1 (snd (init w sz s)) = v1 s" "v2 (snd (init w sz s)) = v2 s"
  "v_out (snd (init w sz s)) = v_out s"
  "handle (snd (init w sz s)) = handle s" "dmem (snd (init w sz s)) = dmem s"
  "kernel_args (snd (init w sz s)) = kernel_args s"
  by (simp_all add: init_def Let_def)

lemma init_outside:
  "\<not> (malloc w (malloc_calls s) \<le> p \<and> p < malloc w (malloc_calls s) + sint sz) \<Longrightarrow>
   mem (snd (init w sz s)) p = mem s p"
  by (simp add: init_def Let_def init_loop_outside)

lemma init_cell:
  "0 \<le> k \<Longrightarrow> k < sint sz \<Longrightarrow>
   mem (snd (init w sz s)) (malloc w (malloc_calls s) + k) =
     word_of_int (sint (rand w (rand_calls s + nat k)) smod 100)"
  by (simp add: init_def Let_def init_loop_cell)

lemma init_vectors_fields [simp]:
  "trace (init_vectors w s) = trace s" "SZ (init_vectors w s) = SZ s"
  "malloc_calls (init_vectors w s) = malloc_calls s + 3"
  "rand_calls (init_vectors w s) = rand_calls s + 3 * nat (sint (SZ s))"
  "err (init_vectors w s) = err s" "device_id (init_vectors w s) = device_id s"
  "v1 (init_vectors w s) = malloc w (malloc_calls s)"
  "v2 (init_vectors w s) = malloc w (malloc_calls s + 1)"
  "v_out (init_vectors w s) = malloc w (malloc_calls s + 2)"
  "handle (init_vectors w s) = handle s" "dmem (init_vectors w s) = dmem s"
  "kernel_args (init_vectors w s) = kernel_args s"
  by (simp_all add: init_vectors_def Let_def case_prod_beta)

lemma init_vectors_cells:
  assumes "malloc_calls s = 0" "vectors_apart w (sint (SZ s))" "0 \<le> k" "k < sint (SZ s)"
  shows "mem (init_vectors w s) (malloc w 0 + k) =
           word_of_int (sint (rand w (rand_calls s + nat k)) smod 100)"
    and "mem (init_vectors w s) (malloc w 1 + k) =
           word_of_int (sint (rand w (rand_calls s + nat (sint (SZ s)) + nat k)) smod 100)"
    and "mem (init_vectors w s) (malloc w 2 + k) =
           word_of_int (sint (rand w (rand_calls s + 2 * nat (sint (SZ s)) + nat k)) smod 100)"
proof -
  let ?n = "sint (SZ s)"
  let ?s1 = "(snd (init w (SZ s) s))\<lparr>v1 := malloc w 0\<rparr>"
  let ?s2 = "(snd (init w (SZ s) ?s1))\<lparr>v2 := malloc w 1\<rparr>"
  let ?s3 = "snd (init w (SZ s) ?s2)"
  have iv: "mem (init_vectors w s) = mem ?s3"
    using assms(1) by (simp add: init_vectors_def Let_def case_prod_beta)
  have d: "\<not> (malloc w 1 \<le> malloc w 0 + k \<and> malloc w 0 + k < malloc w 1 + ?n)"
    "\<not> (malloc w 2 \<le> malloc w 0 + k \<and> malloc w 0 + k < malloc w 2 + ?n)"
    "\<not> (malloc w 2 \<le> malloc w 1 + k \<and> malloc w 1 + k < malloc w 2 + ?n)"
    using assms(2-4) by (auto simp: vectors_apart_def disjoint_blocks_def)
  have m1: "malloc_calls ?s1 = 1" "malloc_calls ?s2 = 2"
    using assms(1) by simp_all
  have "mem ?s3 (malloc w 0 + k) = mem ?s2 (malloc w 0 + k)"
    using d(2) by (intro init_outside) (simp add: m1 numeral_2_eq_2)
  also have "\<dots> = mem ?s1 (malloc w 0 + k)"
    using d(1) init_outside [of w ?s1 "malloc w 0 + k" "SZ s"] by (simp add: m1 numeral_2_eq_2)
  also have "\<dots> = word_of_int (sint (rand w (rand_calls s + nat k)) smod 100)"
    using init_cell [of k "SZ s" w s] assms by simp
  finally show "mem (init_vectors w s) (malloc w 0 + k) =
           word_of_int (sint (rand w (rand_calls s + nat k)) smod 100)"
    by (simp add: iv)
  have "mem ?s3 (malloc w 1 + k) = mem ?s2 (malloc w 1 + k)"
    using d(3) by (intro init_outside) (simp add: m1 numeral_2_eq_2)
  also have "\<dots> = word_of_int (sint (rand w (rand_calls s + nat ?n + nat k)) smod 100)"
    using init_cell [of k "SZ s" w ?s1] assms(3,4) by (simp add: m1 numeral_2_eq_2)
  finally show "mem (init_vectors w s) (malloc w 1 + k) =
           word_of_int (sint (rand w (rand_calls s + nat (sint (SZ s)) + nat k)) smod 100)"
    by (simp add: iv)
  have "mem ?s3 (malloc w 2 + k) = word_of_int (sint (rand w (rand_calls ?s2 + nat k)) smod 100)"
    using init_cell [of k "SZ s" w ?s2] assms(3,4) by (simp add: m1 numeral_2_eq_2)
  moreover have "rand_calls ?s2 + nat k = rand_calls s + 2 * nat (sint (SZ s)) + nat k"
    by simp
  ultimately show "mem (init_vectors w s) (malloc w 2 + k) =
           word_of_int (sint (rand w (rand_calls s + 2 * nat (sint (SZ s)) + nat k)) smod 100)"
    by (simp only: iv)
qed

lemma print_fields [simp]:
  "trace (print A sz s) = trace s @ [Printf (print_text (mem s) A sz)]"
  "SZ (print A sz s) = SZ s" "mem (print A sz s) = mem s"
  "rand_calls (print A sz s) = rand_calls s" "malloc_calls (print A sz s) = malloc_calls s"
  "err (print A sz s) = err s" "device_id (print A sz s) = device_id s"
  "v1 (print A sz s) = v1 s" "v2 (print A sz s) = v2 s" "v_out (print A sz s) = v_out s"
  "handle (print A sz s) = handle s" "dmem (print A sz s) = dmem s"
  "kernel_args (print A sz s) = kernel_args s"
  by (simp_all add: print_def)

lemma print_inputs_fields [simp]:
  "trace (print_inputs s) = trace s @ [Printf (''Vector v1:'' @ newline),
     Printf (print_text (mem s) (v1 s) (SZ s)), Printf (''Vector v2:'' @ newline),
     Printf (print_text (mem s) (v2 s) (SZ s))]"
  "SZ (print_inputs s) = SZ s" "mem (print_inputs s) = mem s"
  "rand_calls (print_inputs s) = rand_calls s" "malloc_calls (print_inputs s) = malloc_calls s"
  "err (print_inputs s) = err s" "device_id (print_inputs s) = device_id s"
  "v1 (print_inputs s) = v1 s" "v2 (print_inputs s) = v2 s" "v_out (print_inputs s) = v_out s"
  "handle (print_inputs s) = handle s" "dmem (print_inputs s) = dmem s"
  "kernel_args (print_inputs s) = kernel_args s"
  by (simp_all add: print_inputs_def Let_def)

lemma parse_args_fields [simp]:
  "SZ (parse_args w s) = (if 1 < length (argv w) then atoi w (argv w ! 1) else SZ s)"
  "trace (parse_args w s) = trace s" "mem (parse_args w s) = mem s"
  "rand_calls (parse_args w s) = rand_calls s" "malloc_calls (parse_args w s) = malloc_calls s"
  "err (parse_args w s) = err s" "device_id (parse_args w s) = device_id s"
  "v1 (parse_args w s) = v1 s" "v2 (parse_args w s) = v2 s" "v_out (parse_args w s) = v_out s"
  "handle (parse_args w s) = handle s" "dmem (parse_args w s) = dmem s"
  "kernel_args (parse_args w s) = kernel_args s"
  by (simp_all add: parse_args_def)

lemma create_buffer_fields [simp]:
  "trace (create_buffer w b s) = trace s @ [Create (Buffer b)]"
  "handle (create_buffer w b s) = (handle s)(b := clCreateBuffer w b)"
  "SZ (create_buffer w b s) = SZ s" "mem (create_buffer w b s) = mem s"
  "rand_calls (create_buffer w b s) = rand_calls s"
  "malloc_calls (create_buffer w b s) = malloc_calls s"
  "err (create_buffer w b s) = err s" "device_id (create_buffer w b s) = device_id s"
  "v1 (create_buffer w b s) = v1 s" "v2 (create_buffer w b s) = v2 s"
  "v_out (create_buffer w b s) = v_out s"
  "dmem (create_buffer w b s) = dmem s" "kernel_args (create_buffer w b s) = kernel_args s"
  by (simp_all add: create_buffer_def)

lemma write_buffer_fields [simp]:
  "trace (write_buffer w b p s) = trace s @ [Call (EnqueueWriteBuffer b)]"
  "handle (write_buffer w b p s) = handle s"
  "SZ (write_buffer w b p s) = SZ s" "mem (write_buffer w b p s) = mem s"
  "rand_calls (write_buffer w b p s) = rand_calls s"
  "malloc_calls (write_buffer w b p s) = malloc_calls s"
  "err (write_buffer w b p s) = err s" "device_id (write_buffer w b p s) = device_id s"
  "v1 (write_buffer w b p s) = v1 s" "v2 (write_buffer w b p s) = v2 s"
  "v_out (write_buffer w b p s) = v_out s"
  "kernel_args (write_buffer w b p s) = kernel_args s"
  by (simp_all add: write_buffer_def Let_def)

lemma write_buffer_dmem:
  "dmem (write_buffer w b p s) =
     (if handle s b \<and> clEnqueueWriteBuffer w b = CL_SUCCESS
      then (dmem s)(b := (\<lambda>k. if k < transfer_cells (SZ s) then mem s (p + int k) else dmem s b k))
      else dmem s)"
  by (simp add: write_buffer_def Let_def cong: if_cong)

lemma read_buffer_fields [simp]:
  "trace (read_buffer w b p s) = trace s @ [Call EnqueueReadBuffer]"
  "handle (read_buffer w b p s) = handle s"
  "SZ (read_buffer w b p s) = SZ s" "dmem (read_buffer w b p s) = dmem s"
  "rand_calls (read_buffer w b p s) = rand_calls s"
  "malloc_calls (read_buffer w b p s) = malloc_calls s"
  "err (read_buffer w b p s) = err s" "device_id (read_buffer w b p s) = device_id s"
  "v1 (read_buffer w b p s) = v1 s" "v2 (read_buffer w b p s) = v2 s"
  "v_out (read_buffer w b p s) = v_out s"
  "kernel_args (read_buffer w b p s) = kernel_args s"
  by (simp_all add: read_buffer_def Let_def)

lemma read_buffer_mem:
  "mem (read_buffer w b p s) =
     (if handle s b \<and> clEnqueueReadBuffer w = CL_SUCCESS
      then (\<lambda>q. if p \<le> q \<and> q < p + int (transfer_cells (SZ s))
                 then dmem s b (nat (q - p)) else mem s q)
      else mem s)"
  by (simp add: read_buffer_def Let_def cong: if_cong)

lemma set_kernel_arg_fields [simp]:
  "trace (set_kernel_arg w k a s) = trace s @ [Call (SetKernelArg k)]"
  "handle (set_kernel_arg w k a s) = handle s"
  "SZ (set_kernel_arg w k a s) = SZ s" "mem (set_kernel_arg w k a s) = mem s"
  "dmem (set_kernel_arg w k a s) = dmem s"
  "rand_calls (set_kernel_arg w k a s) = rand_calls s"
  "malloc_calls (set_kernel_arg w k a s) = malloc_calls s"
  "err (set_kernel_arg w k a s) = err s" "device_id (set_kernel_arg w k a s) = device_id s"
  "v1 (set_kernel_arg w k a s) = v1 s" "v2 (set_kernel_arg w k a s) = v2 s"
  "v_out (set_kernel_arg w k a s) = v_out s"
  "kernel_args (set_kernel_arg w k a s) =
     (if clSetKernelArg w k = CL_SUCCESS then (kernel_args s)(k := Some a) else kernel_args s)"
  by (simp_all add: set_kernel_arg_def Let_def)

lemma enqueue_kernel_fields [simp]:
  "trace (enqueue_kernel w g s) = trace s @ [Call EnqueueNDRangeKernel]"
  "handle (enqueue_kernel w g s) = handle s"
  "SZ (enqueue_kernel w g s) = SZ s" "mem (enqueue_kernel w g s) = mem s"
  "rand_calls (enqueue_kernel w g s) = rand_calls s"
  "malloc_calls (enqueue_kernel w g s) = malloc_calls s"
  "err (enqueue_kernel w g s) = err s" "device_id (enqueue_kernel w g s) = device_id s"
  "v1 (enqueue_kernel w g s) = v1 s" "v2 (enqueue_kernel w g s) = v2 s"
  "v_out (enqueue_kernel w g s) = v_out s"
  "kernel_args (enqueue_kernel w g s) = kernel_args s"
  by (simp_all add: enqueue_kernel_def Let_def split: option.splits kernel_arg.splits)

lemma setup_kernel_memory_fields [simp]:
  "trace (setup_kernel_memory w s) = trace s @ [Create (Buffer BufV1), Create (Buffer BufV2),
     Create (Buffer BufV_out), Call (EnqueueWriteBuffer BufV1), Call (EnqueueWriteBuffer BufV2)]"
  "handle (setup_kernel_memory w s) = clCreateBuffer w"
  "SZ (setup_kernel_memory w s) = SZ s" "mem (setup_kernel_memory w s) = mem s"
  "rand_calls (setup_kernel_memory w s) = rand_calls s"
  "malloc_calls (setup_kernel_memory w s) = malloc_calls s"
  "err (setup_kernel_memory w s) = err s" "device_id (setup_kernel_memory w s) = device_id s"
  "v1 (setup_kernel_memory w s) = v1 s" "v2 (setup_kernel_memory w s) = v2 s"
  "v_out (setup_kernel_memory w s) = v_out s"
  "kernel_args (setup_kernel_memory w s) = kernel_args s"
proof -
  have "(handle s)(BufV1 := clCreateBuffer w BufV1, BufV2 := clCreateBuffer w BufV2,
         BufV_out := clCreateBuffer w BufV_out) = clCreateBuffer w"
  proof
    fix b
    show "((handle s)(BufV1 := clCreateBuffer w BufV1, BufV2 := clCreateBuffer w BufV2,
         BufV_out := clCreateBuffer w BufV_out)) b = clCreateBuffer w b"
      by (cases b) simp_all
  qed
  then show "handle (setup_kernel_memory w s) = clCreateBuffer w"
    by (simp add: setup_kernel_memory_def Let_def)
qed (simp_all add: setup_kernel_memory_def Let_def)

lemma free_memory_fields [simp]:
  "trace (free_memory s) = trace s @ [Release (Buffer BufV1), Release (Buffer BufV2),
     Release (Buffer BufV_out), Release Kernel, Release Queue, Release Program, Release Context,
     Free (v1 s), Free (v2 s), Free (v_out s)]"
  "handle (free_memory s) = handle s" "dmem (free_memory s) = dmem s"
  "SZ (free_memory s) = SZ s" "mem (free_memory s) = mem s"
  "rand_calls (free_memory s) = rand_calls s"
  "malloc_calls (free_memory s) = malloc_calls s"
  "err (free_memory s) = err s" "device_id (free_memory s) = device_id s"
  "v1 (free_memory s) = v1 s" "v2 (free_memory s) = v2 s"
  "v_out (free_memory s) = v_out s"
  "kernel_args (free_memory s) = kernel_args s"
  by (simp_all add: free_memory_def Let_def)

lemma copy_kernel_args_cases:
  "copy_kernel_args w s =
     (let s' = set_kernel_arg w 3 (MemArg BufV_out) (set_kernel_arg w 2 (MemArg BufV2)
                 (set_kernel_arg w 1 (MemArg BufV1) (set_kernel_arg w 0 (IntArg (SZ s)) s)))
      in if err s < 0 then Exit 1 (log (Perror ''Couldn't set kernel arguments'') s')
         else Return () s')"
  by (simp add: copy_kernel_args_def Let_def)

section \<open>Sizes\<close>

lemma unat_scast_nonneg:
  assumes "0 \<le> sint (sz :: cint)"
  shows "unat (scast sz :: 64 word) = nat (sint sz)"
proof -
  have "sint sz < 2 ^ 31"
    using sint_lt [of sz] by simp
  moreover have "(2 :: int) ^ 31 \<le> 2 ^ 64"
    by simp
  ultimately have lt: "sint sz < 2 ^ 64"
    by linarith
  have "uint (scast sz :: 64 word) = sint sz mod 2 ^ 64"
    by (simp only: scast_eq uint_word_of_int) simp
  also have "\<dots> = sint sz"
    using assms lt by simp
  finally show ?thesis
    by (simp only: unat_eq_nat_uint)
qed

lemma global_size_nonneg: "0 \<le> sint sz \<Longrightarrow> global_size sz = nat (sint sz)"
  by (simp add: global_size_def unat_scast_nonneg)

lemma transfer_cells_nonneg:
  assumes "0 \<le> sint sz"
  shows "transfer_cells sz = nat (sint sz)"
proof -
  have "sint sz < 2 ^ 31"
    using sint_lt [of sz] by simp
  then have "nat (sint sz) < 2 ^ 31"
    using assms by (simp add: nat_less_iff)
  moreover have "(2 :: nat) ^ 31 * 4 \<le> 2 ^ 64"
    by simp
  ultimately have "nat (sint sz) * 4 < 2 ^ 64"
    by linarith
  then have "unat ((scast sz :: 64 word) * 4) = nat (sint sz) * 4"
    using assms by (simp add: unat_word_ariths unat_scast_nonneg)
  then show ?thesis
    by (simp add: transfer_cells_def)
qed

section \<open>Outcomes of the set-up and of the offload\<close>

lemma build_program_cases:
  "build_program w f s =
     (if \<not> fopen w f
      then Exit 1 (s\<lparr>trace := trace s @ [Perror ''Couldn't find the program file'']\<rparr>)
      else if clCreateProgramWithSource w < 0
      then Exit 1 (s\<lparr>err := clCreateProgramWithSource w,
             trace := trace s @ [Create Program, Perror ''Couldn't create the program'']\<rparr>)
      else if clBuildProgram w < 0
      then Exit 1 (s\<lparr>err := clBuildProgram w,
             trace := trace s @ [Create Program, Call BuildProgram, Call GetProgramBuildInfo,
               Call GetProgramBuildInfo, Printf (clGetProgramBuildInfo w @ newline)]\<rparr>)
      else Return () (s\<lparr>err := clBuildProgram w,
             trace := trace s @ [Create Program, Call BuildProgram]\<rparr>))"
  by (simp add: build_program_def Let_def log_def)

lemma create_device_found:
  assumes "0 \<le> clGetPlatformIDs w" "device_found w"
  shows "create_device w s =
     Return (selected_device w)
       (s\<lparr>err := (if fst (clGetDeviceIDs w CL_DEVICE_TYPE_GPU) = CL_DEVICE_NOT_FOUND
                     then fst (clGetDeviceIDs w CL_DEVICE_TYPE_CPU)
                     else fst (clGetDeviceIDs w CL_DEVICE_TYPE_GPU)),
          trace := trace s @ device_events w\<rparr>)"
  using assms
  by (auto simp: device_found_def selected_device_def device_events_def create_device_cases
      CL_DEVICE_NOT_FOUND_def split: if_splits)

lemma create_device_not_found:
  assumes "0 \<le> clGetPlatformIDs w" "\<not> device_found w"
  shows "create_device w s =
     Exit 1
       (s\<lparr>err := (if fst (clGetDeviceIDs w CL_DEVICE_TYPE_GPU) = CL_DEVICE_NOT_FOUND
                     then fst (clGetDeviceIDs w CL_DEVICE_TYPE_CPU)
                     else fst (clGetDeviceIDs w CL_DEVICE_TYPE_GPU)),
          trace := trace s @ device_events w @ [Perror ''Couldn't access any devices'']\<rparr>)"
  using assms
  by (auto simp: device_found_def device_events_def create_device_cases CL_DEVICE_NOT_FOUND_def
      split: if_splits)

lemma setup_fail_platform:
  assumes "\<not> 0 \<le> clGetPlatformIDs w"
  shows "setup_openCL_device_context_queue_kernel w f k s =
     Exit 1 (s\<lparr>err := clGetPlatformIDs w,
               trace := trace s @ [Call GetPlatformIDs, Perror ''Couldn't identify a platform'']\<rparr>)"
  using assms
  by (simp add: setup_openCL_device_context_queue_kernel_def create_device_cases)

lemma setup_fail_device:
  assumes "0 \<le> clGetPlatformIDs w" "\<not> device_found w"
  shows "setup_openCL_device_context_queue_kernel w f k s =
     Exit 1
       (s\<lparr>err := (if fst (clGetDeviceIDs w CL_DEVICE_TYPE_GPU) = CL_DEVICE_NOT_FOUND
                     then fst (clGetDeviceIDs w CL_DEVICE_TYPE_CPU)
                     else fst (clGetDeviceIDs w CL_DEVICE_TYPE_GPU)),
          trace := trace s @ device_events w @ [Perror ''Couldn't access any devices'']\<rparr>)"
  by (simp add: setup_openCL_device_context_queue_kernel_def create_device_not_found [OF assms])

lemma setup_fail_context:
  assumes "0 \<le> clGetPlatformIDs w" "device_found w" "\<not> 0 \<le> clCreateContext w"
  shows "setup_openCL_device_context_queue_kernel w f k s =
     Exit 1 (s\<lparr>err := clCreateContext w, device_id := selected_device w,
               trace := trace s @ device_events w @ [Create Context, Perror ''Couldn't create a context'']\<rparr>)"
  using assms(3)
  by (simp add: setup_openCL_device_context_queue_kernel_def create_device_found [OF assms(1,2)]
      Let_def log_def)

lemma setup_fail_fopen:
  assumes "0 \<le> clGetPlatformIDs w" "device_found w" "0 \<le> clCreateContext w" "\<not> fopen w f"
  shows "setup_openCL_device_context_queue_kernel w f k s =
     Exit 1 (s\<lparr>err := clCreateContext w, device_id := selected_device w,
               trace := trace s @ device_events w @ [Create Context, Perror ''Couldn't find the program file'']\<rparr>)"
  using assms(3,4)
  by (simp add: setup_openCL_device_context_queue_kernel_def create_device_found [OF assms(1,2)]
      build_program_cases Let_def log_def)

lemma setup_fail_source:
  assumes "0 \<le> clGetPlatformIDs w" "device_found w" "0 \<le> clCreateContext w" "fopen w f"
    "\<not> 0 \<le> clCreateProgramWithSource w"
  shows "setup_openCL_device_context_queue_kernel w f k s =
     Exit 1 (s\<lparr>err := clCreateProgramWithSource w, device_id := selected_device w,
               trace := trace s @ device_events w @ [Create Context, Create Program,
                 Perror ''Couldn't create the program'']\<rparr>)"
  using assms(3-5)
  by (simp add: setup_openCL_device_context_queue_kernel_def create_device_found [OF assms(1,2)]
      build_program_cases Let_def log_def)

lemma setup_fail_build:
  assumes "0 \<le> clGetPlatformIDs w" "device_found w" "0 \<le> clCreateContext w" "fopen w f"
    "0 \<le> clCreateProgramWithSource w" "\<not> 0 \<le> clBuildProgram w"
  shows "setup_openCL_device_context_queue_kernel w f k s =
     Exit 1 (s\<lparr>err := clBuildProgram w, device_id := selected_device w,
               trace := trace s @ device_events w @ [Create Context, Create Program,
                 Call BuildProgram, Call GetProgramBuildInfo, Call GetProgramBuildInfo,
                 Printf (clGetProgramBuildInfo w @ newline)]\<rparr>)"
  using assms(3-6)
  by (simp add: setup_openCL_device_context_queue_kernel_def create_device_found [OF assms(1,2)]
      build_program_cases Let_def log_def)

lemma setup_fail_queue:
  assumes "0 \<le> clGetPlatformIDs w" "device_found w" "0 \<le> clCreateContext w" "fopen w f"
    "0 \<le> clCreateProgramWithSource w" "0 \<le> clBuildProgram w"
    "\<not> 0 \<le> clCreateCommandQueueWithProperties w"
  shows "setup_openCL_device_context_queue_kernel w f k s =
     Exit 1 (s\<lparr>err := clCreateCommandQueueWithProperties w, device_id := selected_device w,
               trace := trace s @ device_events w @ [Create Context, Create Program,
                 Call BuildProgram, Create Queue, Perror ''Couldn't create a command queue'']\<rparr>)"
  using assms(3-7)
  by (simp add: setup_openCL_device_context_queue_kernel_def create_device_found [OF assms(1,2)]
      build_program_cases Let_def log_def)

lemma setup_fail_kernel:
  assumes "0 \<le> clGetPlatformIDs w" "device_found w" "0 \<le> clCreateContext w" "fopen w f"
    "0 \<le> clCreateProgramWithSource w" "0 \<le> clBuildProgram w"
    "0 \<le> clCreateCommandQueueWithProperties w" "\<not> 0 \<le> clCreateKernel w"
  shows "setup_openCL_device_context_queue_kernel w f k s =
     Exit 1 (s\<lparr>err := clCreateKernel w, device_id := selected_device w,
               trace := trace s @ device_events w @ [Create Context, Create Program,
                 Call BuildProgram, Create Queue, Create Kernel, Perror ''Couldn't create a kernel'']\<rparr>)"
  using assms(3-8)
  by (simp add: setup_openCL_device_context_queue_kernel_def create_device_found [OF assms(1,2)]
      build_program_cases Let_def log_def)

lemma setup_return:
  assumes "0 \<le> clGetPlatformIDs w" "device_found w" "0 \<le> clCreateContext w" "fopen w f"
    "0 \<le> clCreateProgramWithSource w" "0 \<le> clBuildProgram w"
    "0 \<le> clCreateCommandQueueWithProperties w" "0 \<le> clCreateKernel w"
  shows "setup_openCL_device_context_queue_kernel w f k s =
     Return () (s\<lparr>err := clCreateKernel w, device_id := selected_device w,
                  trace := trace s @ setup_events w\<rparr>)"
  using assms(3-8)
  by (simp add: setup_openCL_device_context_queue_kernel_def create_device_found [OF assms(1,2)]
      build_program_cases Let_def log_def setup_events_def)

lemma device_events_setup: "\<forall>e \<in> set (device_events w). setup_event e"
  by (auto simp: device_events_def)

lemma setup_exit:
  assumes "\<not> setup_ok w"
    and out_def: "out = setup_openCL_device_context_queue_kernel w ''./vector_ops_ocl.cl'' k s"
  shows "exit_code out = Some 1
     \<and> final out = s\<lparr>err := err (final out), device_id := device_id (final out),
                       trace := trace s @ new_events s (final out)\<rparr>
     \<and> new_events s (final out) \<noteq> []
     \<and> diagnostic (last (new_events s (final out)))
     \<and> (\<forall>e \<in> set (new_events s (final out)). setup_event e)"
proof -
  consider (platform) "\<not> 0 \<le> clGetPlatformIDs w"
    | (device) "0 \<le> clGetPlatformIDs w" "\<not> device_found w"
    | (noctx) "0 \<le> clGetPlatformIDs w" "device_found w" "\<not> 0 \<le> clCreateContext w"
    | (nofile) "0 \<le> clGetPlatformIDs w" "device_found w" "0 \<le> clCreateContext w"
        "\<not> fopen w ''./vector_ops_ocl.cl''"
    | (nosource) "0 \<le> clGetPlatformIDs w" "device_found w" "0 \<le> clCreateContext w"
        "fopen w ''./vector_ops_ocl.cl''" "\<not> 0 \<le> clCreateProgramWithSource w"
    | (nobuild) "0 \<le> clGetPlatformIDs w" "device_found w" "0 \<le> clCreateContext w"
        "fopen w ''./vector_ops_ocl.cl''" "0 \<le> clCreateProgramWithSource w" "\<not> 0 \<le> clBuildProgram w"
    | (queue) "0 \<le> clGetPlatformIDs w" "device_found w" "0 \<le> clCreateContext w"
        "fopen w ''./vector_ops_ocl.cl''" "0 \<le> clCreateProgramWithSource w" "0 \<le> clBuildProgram w"
        "\<not> 0 \<le> clCreateCommandQueueWithProperties w"
    | (kernel) "0 \<le> clGetPlatformIDs w" "device_found w" "0 \<le> clCreateContext w"
        "fopen w ''./vector_ops_ocl.cl''" "0 \<le> clCreateProgramWithSource w" "0 \<le> clBuildProgram w"
        "0 \<le> clCreateCommandQueueWithProperties w" "\<not> 0 \<le> clCreateKernel w"
    using assms(1) unfolding setup_ok_def build_reached_def by blast
  then show ?thesis
  proof cases
    case platform
    show ?thesis
      unfolding out_def setup_fail_platform [OF platform]
      by (simp add: new_events_def)
  next
    case device
    show ?thesis
      unfolding out_def setup_fail_device [OF device]
      using device_events_setup [of w] by (simp add: new_events_def)
  next
    case noctx
    show ?thesis
      unfolding out_def setup_fail_context [OF noctx]
      using device_events_setup [of w] by (simp add: new_events_def)
  next
    case nofile
    show ?thesis
      unfolding out_def setup_fail_fopen [OF nofile]
      using device_events_setup [of w] by (simp add: new_events_def)
  next
    case nosource
    show ?thesis
      unfolding out_def setup_fail_source [OF nosource]
      using device_events_setup [of w] by (simp add: new_events_def)
  next
    case nobuild
    show ?thesis
      unfolding out_def setup_fail_build [OF nobuild]
      using device_events_setup [of w] by (simp add: new_events_def)
  next
    case queue
    show ?thesis
      unfolding out_def setup_fail_queue [OF queue]
      using device_events_setup [of w] by (simp add: new_events_def)
  next
    case kernel
    show ?thesis
      unfolding out_def setup_fail_kernel [OF kernel]
      using device_events_setup [of w] by (simp add: new_events_def)
  qed
qed

lemma setup_ok_return:
  assumes "setup_ok w"
  shows "setup_openCL_device_context_queue_kernel w ''./vector_ops_ocl.cl'' k s =
     Return () (s\<lparr>err := clCreateKernel w, device_id := selected_device w,
                  trace := trace s @ setup_events w\<rparr>)"
  using assms unfolding setup_ok_def build_reached_def
  by (intro setup_return) simp_all

lemma exit_code_final: "exit_code out = Some c \<Longrightarrow> out = Exit c (final out)"
  by (cases out) simp_all

lemma offload_exit:
  assumes "\<not> setup_ok w"
  shows "offload w s =
     setup_openCL_device_context_queue_kernel w ''./vector_ops_ocl.cl'' ''vector_add_ocl'' s"
proof -
  let ?out = "setup_openCL_device_context_queue_kernel w ''./vector_ops_ocl.cl'' ''vector_add_ocl'' s"
  have "exit_code ?out = Some 1"
    using setup_exit [OF assms refl, of "''vector_add_ocl''" s] by blast
  then obtain s' where eq: "?out = Exit 1 s'"
    using exit_code_final by blast
  show ?thesis
    by (simp add: offload_def Let_def eq)
qed

lemma offload_ok:
  assumes "setup_ok w"
  shows "offload w s =
     Return ()
       (read_buffer w BufV_out (v_out s)
         (log (Call WaitForEvents)
           (enqueue_kernel w (global_size (SZ s))
             (set_kernel_arg w 3 (MemArg BufV_out)
               (set_kernel_arg w 2 (MemArg BufV2)
                 (set_kernel_arg w 1 (MemArg BufV1)
                   (set_kernel_arg w 0 (IntArg (SZ s))
                     (setup_kernel_memory w
                       (s\<lparr>err := clCreateKernel w, device_id := selected_device w,
                          trace := trace s @ setup_events w\<rparr>)))))))))"
proof -
  have k: "0 \<le> clCreateKernel w"
    using assms by (simp add: setup_ok_def)
  show ?thesis
    using k by (simp add: offload_def setup_ok_return [OF assms] copy_kernel_args_cases Let_def)
qed

section \<open>Runs of the OpenCL program\<close>

lemma start_fields [simp]:
  "SZ (start w) = 100000000" "mem (start w) = memory0 w" "rand_calls (start w) = 0"
  "malloc_calls (start w) = 0" "trace (start w) = []" "err (start w) = 0"
  "handle (start w) = (\<lambda>b. False)" "dmem (start w) = device0 w"
  "kernel_args (start w) = (\<lambda>k. None)"
  by (simp_all add: start_def)

lemma inputs_fields [simp]:
  "SZ (inputs w) = vector_length w"
  "v1 (inputs w) = malloc w 0" "v2 (inputs w) = malloc w 1" "v_out (inputs w) = malloc w 2"
  "rand_calls (inputs w) = 3 * nat (sint (vector_length w))"
  "trace (inputs w) = [Printf (''Vector v1:'' @ newline),
     Printf (print_text (mem (inputs w)) (malloc w 0) (vector_length w)),
     Printf (''Vector v2:'' @ newline),
     Printf (print_text (mem (inputs w)) (malloc w 1) (vector_length w))]"
  by (simp_all add: inputs_def vector_length_def numeral_2_eq_2)

lemma released_append [simp]: "released (xs @ ys) = released xs @ released ys"
  by (induction xs rule: released.induct) simp_all

lemma created_append [simp]: "created (xs @ ys) = created xs @ created ys"
  by (induction xs rule: created.induct) simp_all

lemma setup_events_released: "\<forall>e \<in> set es. setup_event e \<Longrightarrow> released es = []"
  by (induction es rule: released.induct) simp_all

lemma setup_events_no_buffer: "\<forall>e \<in> set es. setup_event e \<Longrightarrow> Create (Buffer b) \<notin> set es"
  by (induction es) auto

lemma setup_events_no_read: "\<forall>e \<in> set es. setup_event e \<Longrightarrow> Call EnqueueReadBuffer \<notin> set es"
  by (induction es) auto

lemma returned_final: "returned out = Some x \<Longrightarrow> out = Return x (final out)"
  by (cases out) simp_all

lemma offload_fields [simp]:
  "SZ (final (offload w s)) = SZ s" "v1 (final (offload w s)) = v1 s"
  "v2 (final (offload w s)) = v2 s" "v_out (final (offload w s)) = v_out s"
  "rand_calls (final (offload w s)) = rand_calls s"
  "malloc_calls (final (offload w s)) = malloc_calls s"
proof -
  let ?out = "setup_openCL_device_context_queue_kernel w ''./vector_ops_ocl.cl'' ''vector_add_ocl'' s"
  have "SZ (final (offload w s)) = SZ s \<and> v1 (final (offload w s)) = v1 s
    \<and> v2 (final (offload w s)) = v2 s \<and> v_out (final (offload w s)) = v_out s
    \<and> rand_calls (final (offload w s)) = rand_calls s
    \<and> malloc_calls (final (offload w s)) = malloc_calls s"
  proof (cases "setup_ok w")
    case True
    show ?thesis
      by (simp add: offload_ok [OF True])
  next
    case False
    have "final ?out = s\<lparr>err := err (final ?out), device_id := device_id (final ?out),
            trace := trace s @ new_events s (final ?out)\<rparr>"
      using setup_exit [OF False refl, of "''vector_add_ocl''" s] by blast
    then have eq: "final ?out = s\<lparr>err := e, device_id := d, trace := t\<rparr>"
      if "e = err (final ?out)" "d = device_id (final ?out)"
        "t = trace s @ new_events s (final ?out)" for e d t
      using that by simp
    have "SZ (final ?out) = SZ s" "v1 (final ?out) = v1 s"
      "v2 (final ?out) = v2 s" "v_out (final ?out) = v_out s"
      "rand_calls (final ?out) = rand_calls s"
      "malloc_calls (final ?out) = malloc_calls s"
      by (subst eq [OF refl refl refl], simp)+
    then show ?thesis
      by (simp add: offload_exit [OF False])
  qed
  then show "SZ (final (offload w s)) = SZ s" "v1 (final (offload w s)) = v1 s"
    "v2 (final (offload w s)) = v2 s" "v_out (final (offload w s)) = v_out s"
    "rand_calls (final (offload w s)) = rand_calls s"
    "malloc_calls (final (offload w s)) = malloc_calls s"
    by simp_all
qed

lemma opencl_main_alt:
  "opencl_main w =
     (case offload w (inputs w) of
        Exit c s \<Rightarrow> (c, s)
      | Return u s \<Rightarrow>
          (0, free_memory
                (log (Printf (''OpenCL Kernel Execution Time: '' @ elapsed w @ '' ms'' @ newline))
                  (print (v_out s) (SZ s)
                    (log (Printf (''Vector v_out (OpenCL):'' @ newline)) s)))))"
  by (simp only: opencl_main_def inputs_def Let_def log_fields cong: outcome.case_cong)

lemma opencl_main_exit:
  assumes "\<not> setup_ok w"
  shows "opencl_main w =
     (1, final (setup_openCL_device_context_queue_kernel w ''./vector_ops_ocl.cl'' ''vector_add_ocl'' (inputs w)))"
proof -
  let ?out = "setup_openCL_device_context_queue_kernel w ''./vector_ops_ocl.cl'' ''vector_add_ocl'' (inputs w)"
  have "exit_code ?out = Some 1"
    using setup_exit [OF assms refl, of "''vector_add_ocl''" "inputs w"] by blast
  then obtain s' where eq: "?out = Exit 1 s'"
    using exit_code_final by blast
  have "offload w (inputs w) = Exit 1 s'"
    using offload_exit [OF assms, of "inputs w"] eq by simp
  then show ?thesis
    by (simp add: opencl_main_alt eq)
qed

lemma opencl_main_ok:
  assumes "setup_ok w"
  shows "opencl_main w =
     (0, free_memory
           (log (Printf (''OpenCL Kernel Execution Time: '' @ elapsed w @ '' ms'' @ newline))
             (print (malloc w 2) (vector_length w)
               (log (Printf (''Vector v_out (OpenCL):'' @ newline))
                 (final (offload w (inputs w)))))))"
proof -
  have "returned (offload w (inputs w)) = Some ()"
    by (simp add: offload_ok [OF assms])
  then have eq: "offload w (inputs w) = Return () (final (offload w (inputs w)))"
    by (rule returned_final)
  have "opencl_main w =
     (0, free_memory
           (log (Printf (''OpenCL Kernel Execution Time: '' @ elapsed w @ '' ms'' @ newline))
             (print (v_out (final (offload w (inputs w)))) (SZ (final (offload w (inputs w))))
               (log (Printf (''Vector v_out (OpenCL):'' @ newline))
                 (final (offload w (inputs w)))))))"
    by (subst opencl_main_alt, subst eq) simp
  then show ?thesis
    by simp
qed

lemma offload_trace:
  assumes "setup_ok w"
  shows "trace (final (offload w s)) =
     trace s @ setup_events w @
       [Create (Buffer BufV1), Create (Buffer BufV2), Create (Buffer BufV_out),
        Call (EnqueueWriteBuffer BufV1), Call (EnqueueWriteBuffer BufV2),
        Call (SetKernelArg 0), Call (SetKernelArg 1), Call (SetKernelArg 2), Call (SetKernelArg 3),
        Call EnqueueNDRangeKernel, Call WaitForEvents, Call EnqueueReadBuffer]"
  by (simp add: offload_ok [OF assms])

lemma device_events_created [simp]: "created (device_events w) = []"
  by (simp add: device_events_def)

lemma device_events_released [simp]: "released (device_events w) = []"
  by (simp add: device_events_def)

lemma opencl_main_failed:
  assumes "\<not> setup_ok w"
  shows "fst (opencl_main w) = 1"
    and "\<exists>es. trace (snd (opencl_main w)) = trace (inputs w) @ es \<and> es \<noteq> []
           \<and> diagnostic (last es) \<and> (\<forall>e \<in> set es. setup_event e)"
proof -
  let ?out = "setup_openCL_device_context_queue_kernel w ''./vector_ops_ocl.cl'' ''vector_add_ocl'' (inputs w)"
  note f = setup_exit [OF assms refl, of "''vector_add_ocl''" "inputs w"]
  show "fst (opencl_main w) = 1"
    by (simp add: opencl_main_exit [OF assms])
  have "final ?out = (inputs w)\<lparr>err := err (final ?out), device_id := device_id (final ?out),
            trace := trace (inputs w) @ new_events (inputs w) (final ?out)\<rparr>"
    using f by blast
  then have eq: "final ?out = (inputs w)\<lparr>err := e, device_id := d, trace := t\<rparr>"
    if "e = err (final ?out)" "d = device_id (final ?out)"
      "t = trace (inputs w) @ new_events (inputs w) (final ?out)" for e d t
    using that by simp
  have "trace (final ?out) = trace (inputs w) @ new_events (inputs w) (final ?out)"
    by (subst eq [OF refl refl refl]) simp
  then show "\<exists>es. trace (snd (opencl_main w)) = trace (inputs w) @ es \<and> es \<noteq> []
           \<and> diagnostic (last es) \<and> (\<forall>e \<in> set es. setup_event e)"
    using f by (simp only: opencl_main_exit [OF assms] snd_conv) blast
qed

lemma inputs_trace_plain:
  "released (trace (inputs w)) = []" "created (trace (inputs w)) = []"
  "Create (Buffer b) \<notin> set (trace (inputs w))" "Call EnqueueReadBuffer \<notin> set (trace (inputs w))"
  by simp_all

text \<open>
  C3, as amended. In a run in which the four kernel-argument bindings succeed, the
  process exits with code 1 exactly when one of the tested steps fails: the platform
  query, the device query, the creation of the context, the opening of the kernel file,
  the creation or the build of the program, the creation of the queue or of the kernel.
  The last thing such a run does is to give its diagnostic: nothing is released, no
  device buffer is created and no result is read back. When every tested step passes,
  the exit code is 0, whatever the buffer allocations, the uploads, the dispatch, the
  wait and the read-back return: their results are not looked at.
\<close>

theorem tested_failures_are_fatal:
  assumes "clSetKernelArg w 0 = CL_SUCCESS" "clSetKernelArg w 1 = CL_SUCCESS"
    "clSetKernelArg w 2 = CL_SUCCESS" "clSetKernelArg w 3 = CL_SUCCESS"
  shows "fst (opencl_main w) = (if setup_ok w then 0 else 1)
     \<and> (\<not> setup_ok w \<longrightarrow>
          diagnostic (last (trace (snd (opencl_main w))))
          \<and> released (trace (snd (opencl_main w))) = []
          \<and> (\<forall>b. Create (Buffer b) \<notin> set (trace (snd (opencl_main w))))
          \<and> Call EnqueueReadBuffer \<notin> set (trace (snd (opencl_main w))))"
proof (cases "setup_ok w")
  case True
  then show ?thesis
    by (simp add: opencl_main_ok)
next
  case False
  obtain es where es: "trace (snd (opencl_main w)) = trace (inputs w) @ es" "es \<noteq> []"
    "diagnostic (last es)" "\<forall>e \<in> set es. setup_event e"
    using opencl_main_failed(2) [OF False] by blast
  have "diagnostic (last (trace (snd (opencl_main w))))"
    using es(2,3) by (simp add: es(1) del: inputs_fields)
  moreover have "released (trace (snd (opencl_main w))) = []"
    using setup_events_released [OF es(4)] by (simp only: es(1) released_append inputs_trace_plain) simp
  moreover have "Create (Buffer b) \<notin> set (trace (snd (opencl_main w)))" for b
    using setup_events_no_buffer [OF es(4), of b] inputs_trace_plain(3) [of b w]
    by (simp only: es(1) set_append) blast
  moreover have "Call EnqueueReadBuffer \<notin> set (trace (snd (opencl_main w)))"
    using setup_events_no_read [OF es(4)] inputs_trace_plain(4) [of w]
    by (simp only: es(1) set_append) blast
  ultimately show ?thesis
    using False opencl_main_failed(1) [OF False] by simp
qed

lemma world_no_buffers_setup_ok: "setup_ok world_no_buffers"
  by (simp add: setup_ok_def build_reached_def device_found_def CL_DEVICE_NOT_FOUND_def
      world_no_buffers_def world_ok_def)

lemma world_build_fails_setup: "\<not> setup_ok world_build_fails"
  by (simp add: setup_ok_def world_build_fails_def world_ok_def)

theorem tested_failures_are_fatal_witness:
  "clSetKernelArg world_build_fails 0 = CL_SUCCESS \<and> clSetKernelArg world_build_fails 1 = CL_SUCCESS
   \<and> clSetKernelArg world_build_fails 2 = CL_SUCCESS \<and> clSetKernelArg world_build_fails 3 = CL_SUCCESS
   \<and> \<not> setup_ok world_build_fails
   \<and> fst (opencl_main world_build_fails) = 1
   \<and> diagnostic (last (trace (snd (opencl_main world_build_fails))))
   \<and> setup_ok world_no_buffers
   \<and> fst (opencl_main world_no_buffers) = 0"
proof -
  have a: "clSetKernelArg world_build_fails 0 = CL_SUCCESS" "clSetKernelArg world_build_fails 1 = CL_SUCCESS"
    "clSetKernelArg world_build_fails 2 = CL_SUCCESS" "clSetKernelArg world_build_fails 3 = CL_SUCCESS"
    by (simp_all add: world_build_fails_def world_ok_def CL_SUCCESS_def)
  have b: "clSetKernelArg world_no_buffers 0 = CL_SUCCESS" "clSetKernelArg world_no_buffers 1 = CL_SUCCESS"
    "clSetKernelArg world_no_buffers 2 = CL_SUCCESS" "clSetKernelArg world_no_buffers 3 = CL_SUCCESS"
    by (simp_all add: world_no_buffers_def world_ok_def CL_SUCCESS_def)
  note n = world_build_fails_setup
  note y = world_no_buffers_setup_ok
  have 1: "fst (opencl_main world_build_fails) = 1
     \<and> diagnostic (last (trace (snd (opencl_main world_build_fails))))"
    using tested_failures_are_fatal [OF a] n by simp
  have 2: "fst (opencl_main world_no_buffers) = 0"
    using tested_failures_are_fatal [OF b] y by simp
  show ?thesis
    using a n y 1 2 by blast
qed

text \<open>
  C3 as stated fails: when all three buffer allocations fail, the run goes on and the
  process ends with exit code 0.
\<close>

theorem allocation_failure_counterexample:
  "\<not> clCreateBuffer world_no_buffers BufV1 \<and> \<not> clCreateBuffer world_no_buffers BufV2
   \<and> \<not> clCreateBuffer world_no_buffers BufV_out
   \<and> fst (opencl_main world_no_buffers) = 0"
proof -
  have "fst (opencl_main world_no_buffers) = 0"
    by (simp only: opencl_main_ok [OF world_no_buffers_setup_ok] fst_conv)
  moreover have "\<not> clCreateBuffer world_no_buffers BufV1" "\<not> clCreateBuffer world_no_buffers BufV2"
    "\<not> clCreateBuffer world_no_buffers BufV_out"
    by (simp_all add: world_no_buffers_def)
  ultimately show ?thesis
    by blast
qed

section \<open>Build failure, and the order of release\<close>

lemma opencl_main_build_fails:
  assumes "build_reached w" "clBuildProgram w < 0"
  shows "opencl_main w =
     (1, (inputs w)\<lparr>err := clBuildProgram w, device_id := selected_device w,
            trace := trace (inputs w) @ device_events w @ [Create Context, Create Program,
              Call BuildProgram, Call GetProgramBuildInfo, Call GetProgramBuildInfo,
              Printf (clGetProgramBuildInfo w @ newline)]\<rparr>)"
proof -
  have n: "\<not> setup_ok w"
    using assms(2) by (simp add: setup_ok_def)
  have b: "0 \<le> clGetPlatformIDs w" "device_found w" "0 \<le> clCreateContext w"
    "fopen w ''./vector_ops_ocl.cl''" "0 \<le> clCreateProgramWithSource w" "\<not> 0 \<le> clBuildProgram w"
    using assms by (simp_all add: build_reached_def)
  show ?thesis
    by (simp only: opencl_main_exit [OF n] setup_fail_build [OF b] final.simps)
qed

text \<open>
  C4. When the kernel program does not compile (every tested step before the build
  passes and \<^verbatim>\<open>clBuildProgram\<close> fails), the process exits with code 1. The last things
  it does are the two calls that fetch the build log and the \<^verbatim>\<open>printf\<close> of the log
  followed by a newline, a text that is never empty. No device buffer is created in
  such a run.
\<close>

theorem build_failure_prints_log:
  assumes "build_reached w" "clBuildProgram w < 0"
  shows "fst (opencl_main w) = 1
     \<and> trace (snd (opencl_main w)) =
         trace (inputs w) @ device_events w @ [Create Context, Create Program,
           Call BuildProgram, Call GetProgramBuildInfo, Call GetProgramBuildInfo,
           Printf (clGetProgramBuildInfo w @ newline)]
     \<and> clGetProgramBuildInfo w @ newline \<noteq> []
     \<and> (\<forall>b. Create (Buffer b) \<notin> set (trace (snd (opencl_main w))))"
proof -
  note m = opencl_main_build_fails [OF assms]
  have 1: "fst (opencl_main w) = 1"
    by (simp add: m)
  have 2: "trace (snd (opencl_main w)) =
         trace (inputs w) @ device_events w @ [Create Context, Create Program,
           Call BuildProgram, Call GetProgramBuildInfo, Call GetProgramBuildInfo,
           Printf (clGetProgramBuildInfo w @ newline)]"
    by (simp add: m del: inputs_fields)
  have 3: "clGetProgramBuildInfo w @ newline \<noteq> []"
    by (simp add: newline_def)
  have 4: "Create (Buffer b) \<notin> set (trace (snd (opencl_main w)))" for b
    unfolding 2 by (auto simp: device_events_def)
  show ?thesis
    using 1 2 3 4 by blast
qed

theorem build_failure_prints_log_witness:
  "build_reached world_build_fails \<and> clBuildProgram world_build_fails < 0
   \<and> fst (opencl_main world_build_fails) = 1
   \<and> last (trace (snd (opencl_main world_build_fails))) =
       Printf (''error: use of undeclared identifier'' @ newline)
   \<and> Create (Buffer BufV1) \<notin> set (trace (snd (opencl_main world_build_fails)))"
proof -
  have r: "build_reached world_build_fails"
    by (simp add: build_reached_def device_found_def CL_DEVICE_NOT_FOUND_def
        world_build_fails_def world_ok_def)
  have f: "clBuildProgram world_build_fails < 0"
    by (simp add: world_build_fails_def)
  have l: "clGetProgramBuildInfo world_build_fails = ''error: use of undeclared identifier''"
    by (simp add: world_build_fails_def)
  note t = build_failure_prints_log [OF r f]
  have "last (trace (snd (opencl_main world_build_fails))) =
       Printf (clGetProgramBuildInfo world_build_fails @ newline)"
    by (subst t [THEN conjunct2, THEN conjunct1]) (simp del: inputs_fields)
  then have 2: "last (trace (snd (opencl_main world_build_fails))) =
       Printf (''error: use of undeclared identifier'' @ newline)"
    by (simp only: l)
  have 1: "fst (opencl_main world_build_fails) = 1"
    using t by blast
  have 3: "Create (Buffer BufV1) \<notin> set (trace (snd (opencl_main world_build_fails)))"
    using t by blast
  show ?thesis
    using r f 1 2 3 by blast
qed

text \<open>
  C7. \<open>free_memory\<close> releases the three device buffers, then the kernel, then the command
  queue, then the program, then the context, each once and in this order. A run of the
  program that ends with exit code 0 releases exactly these seven objects, once each, and
  a run that exits with another code releases nothing. Such a run has created the
  context, the program, the queue, the kernel and then the three buffers: taken kind by
  kind, the objects are released in the reverse of the order of their creation (the
  three buffers, created last, go first, in the order \<^verbatim>\<open>bufV1\<close>, \<^verbatim>\<open>bufV2\<close>,
  \<^verbatim>\<open>bufV_out\<close> in which they were created).
\<close>

theorem release_order:
  "released (trace (free_memory s)) =
     released (trace s) @ [Buffer BufV1, Buffer BufV2, Buffer BufV_out, Kernel, Queue, Program, Context]
   \<and> released (trace (snd (opencl_main w))) =
       (if fst (opencl_main w) = 0
        then [Buffer BufV1, Buffer BufV2, Buffer BufV_out, Kernel, Queue, Program, Context]
        else [])
   \<and> (fst (opencl_main w) = 0 \<longrightarrow>
        created (trace (snd (opencl_main w))) =
          [Context, Program, Queue, Kernel, Buffer BufV1, Buffer BufV2, Buffer BufV_out]
        \<and> remdups_adj (map kind_of (released (trace (snd (opencl_main w))))) =
            rev (remdups_adj (map kind_of (created (trace (snd (opencl_main w)))))))"
proof -
  have 1: "released (trace (free_memory s)) =
     released (trace s) @ [Buffer BufV1, Buffer BufV2, Buffer BufV_out, Kernel, Queue, Program, Context]"
    by simp
  show ?thesis
  proof (cases "setup_ok w")
    case True
    have c: "fst (opencl_main w) = 0"
      by (simp add: opencl_main_ok [OF True])
    have t: "trace (snd (opencl_main w)) =
       trace (inputs w) @ setup_events w @
       [Create (Buffer BufV1), Create (Buffer BufV2), Create (Buffer BufV_out),
        Call (EnqueueWriteBuffer BufV1), Call (EnqueueWriteBuffer BufV2),
        Call (SetKernelArg 0), Call (SetKernelArg 1), Call (SetKernelArg 2), Call (SetKernelArg 3),
        Call EnqueueNDRangeKernel, Call WaitForEvents, Call EnqueueReadBuffer,
        Printf (''Vector v_out (OpenCL):'' @ newline),
        Printf (print_text (mem (final (offload w (inputs w)))) (malloc w 2) (vector_length w)),
        Printf (''OpenCL Kernel Execution Time: '' @ elapsed w @ '' ms'' @ newline),
        Release (Buffer BufV1), Release (Buffer BufV2), Release (Buffer BufV_out),
        Release Kernel, Release Queue, Release Program, Release Context,
        Free (malloc w 0), Free (malloc w 1), Free (malloc w 2)]"
      by (simp add: opencl_main_ok [OF True] offload_trace [OF True] numeral_2_eq_2 del: inputs_fields(6))
    have r: "released (trace (snd (opencl_main w))) =
        [Buffer BufV1, Buffer BufV2, Buffer BufV_out, Kernel, Queue, Program, Context]"
      unfolding t by (simp add: setup_events_def)
    have cr: "created (trace (snd (opencl_main w))) =
          [Context, Program, Queue, Kernel, Buffer BufV1, Buffer BufV2, Buffer BufV_out]"
      unfolding t by (simp add: setup_events_def)
    show ?thesis
      using 1 by (simp add: c r cr)
  next
    case False
    have c: "fst (opencl_main w) = 1"
      by (rule opencl_main_failed(1) [OF False])
    obtain es where es: "trace (snd (opencl_main w)) = trace (inputs w) @ es"
      "\<forall>e \<in> set es. setup_event e"
      using opencl_main_failed(2) [OF False] by blast
    have "released (trace (snd (opencl_main w))) = []"
      unfolding es(1) using setup_events_released [OF es(2)] by simp
    then show ?thesis
      using 1 by (simp add: c)
  qed
qed

lemma world_ok_setup_ok: "setup_ok world_ok"
  by (simp add: setup_ok_def build_reached_def device_found_def CL_DEVICE_NOT_FOUND_def world_ok_def)

theorem release_order_witness:
  "fst (opencl_main world_ok) = 0
   \<and> released (trace (snd (opencl_main world_ok))) =
       [Buffer BufV1, Buffer BufV2, Buffer BufV_out, Kernel, Queue, Program, Context]
   \<and> created (trace (snd (opencl_main world_ok))) =
       [Context, Program, Queue, Kernel, Buffer BufV1, Buffer BufV2, Buffer BufV_out]"
proof -
  have c: "fst (opencl_main world_ok) = 0"
    by (simp only: opencl_main_ok [OF world_ok_setup_ok] fst_conv)
  show ?thesis
    using release_order [of "start world_ok" world_ok] c by simp
qed

section \<open>Data through the offload\<close>

lemma vector_add_ocl_apply:
  "vector_add_ocl n a b out g d c k = (if c = out \<and> k = g then d a g + d b g else d c k)"
  by (simp add: vector_add_ocl_def)

lemma kernel_run:
  assumes "out \<noteq> a" "out \<noteq> b"
  shows "fold (vector_add_ocl n a b out) [0..<g] d c k =
     (if c = out \<and> k < g then d a k + d b k else d c k)"
proof (induction g arbitrary: c k)
  case 0
  then show ?case by simp
next
  case (Suc g)
  let ?d = "fold (vector_add_ocl n a b out) [0..<g] d"
  have "fold (vector_add_ocl n a b out) [0..<Suc g] d c k = vector_add_ocl n a b out g ?d c k"
    by simp
  also have "\<dots> = (if c = out \<and> k = g then ?d a g + ?d b g else ?d c k)"
    by (rule vector_add_ocl_apply)
  also have "\<dots> = (if c = out \<and> k = g then d a g + d b g
                     else if c = out \<and> k < g then d a k + d b k else d c k)"
    using assms by (simp add: Suc.IH)
  also have "\<dots> = (if c = out \<and> k < Suc g then d a k + d b k else d c k)"
    by (auto simp: less_Suc_eq)
  finally show ?case .
qed

lemma offload_mem_fail:
  assumes "\<not> setup_ok w"
  shows "mem (final (offload w s)) = mem s"
proof -
  let ?out = "setup_openCL_device_context_queue_kernel w ''./vector_ops_ocl.cl'' ''vector_add_ocl'' s"
  have "final ?out = s\<lparr>err := err (final ?out), device_id := device_id (final ?out),
            trace := trace s @ new_events s (final ?out)\<rparr>"
    using setup_exit [OF assms refl, of "''vector_add_ocl''" s] by blast
  then have eq: "final ?out = s\<lparr>err := e, device_id := d, trace := t\<rparr>"
    if "e = err (final ?out)" "d = device_id (final ?out)"
      "t = trace s @ new_events s (final ?out)" for e d t
    using that by simp
  have "mem (final ?out) = mem s"
    by (subst eq [OF refl refl refl]) simp
  then show ?thesis
    by (simp add: offload_exit [OF assms])
qed

lemma offload_mem_outside:
  assumes "0 \<le> sint (SZ s)" "\<not> (v_out s \<le> p \<and> p < v_out s + sint (SZ s))"
  shows "mem (final (offload w s)) p = mem s p"
proof (cases "setup_ok w")
  case True
  show ?thesis
    using assms by (auto simp: offload_ok [OF True] read_buffer_mem transfer_cells_nonneg)
next
  case False
  then show ?thesis
    by (simp add: offload_mem_fail)
qed

lemma offload_sum:
  assumes "setup_ok w" "transfers_ok w" "0 \<le> i" "i < sint (SZ s)"
  shows "mem (final (offload w s)) (v_out s + i) = mem s (v1 s + i) + mem s (v2 s + i)"
proof -
  let ?n = "nat (sint (SZ s))"
  let ?s1 = "s\<lparr>err := clCreateKernel w, device_id := selected_device w,
                 trace := trace s @ setup_events w\<rparr>"
  let ?s2 = "setup_kernel_memory w ?s1"
  let ?s3 = "set_kernel_arg w 3 (MemArg BufV_out) (set_kernel_arg w 2 (MemArg BufV2)
               (set_kernel_arg w 1 (MemArg BufV1) (set_kernel_arg w 0 (IntArg (SZ s)) ?s2)))"
  let ?s4 = "enqueue_kernel w (global_size (SZ s)) ?s3"
  have nn: "0 \<le> sint (SZ s)"
    using assms(3,4) by linarith
  have tc: "transfer_cells (SZ s) = ?n" "global_size (SZ s) = ?n"
    using nn by (simp_all add: transfer_cells_nonneg global_size_nonneg)
  have ok: "clCreateBuffer w BufV1" "clCreateBuffer w BufV2" "clCreateBuffer w BufV_out"
    "clEnqueueWriteBuffer w BufV1 = CL_SUCCESS" "clEnqueueWriteBuffer w BufV2 = CL_SUCCESS"
    "clSetKernelArg w 0 = CL_SUCCESS" "clSetKernelArg w 1 = CL_SUCCESS"
    "clSetKernelArg w 2 = CL_SUCCESS" "clSetKernelArg w 3 = CL_SUCCESS"
    "clEnqueueNDRangeKernel w = CL_SUCCESS" "clEnqueueReadBuffer w = CL_SUCCESS"
    using assms(2) by (simp_all add: transfers_ok_def)
  have d2: "dmem ?s2 BufV1 k = (if k < ?n then mem s (v1 s + int k) else dmem s BufV1 k)"
    "dmem ?s2 BufV2 k = (if k < ?n then mem s (v2 s + int k) else dmem s BufV2 k)" for k
    using ok(1-5) by (simp_all add: setup_kernel_memory_def Let_def write_buffer_dmem tc)
  have d4: "dmem ?s4 = fold (vector_add_ocl (SZ s) BufV1 BufV2 BufV_out) [0..<?n] (dmem ?s2)"
    using ok(1-3,6-10) by (simp add: enqueue_kernel_def Let_def tc)
  have cell: "dmem ?s4 BufV_out (nat i) = mem s (v1 s + i) + mem s (v2 s + i)"
  proof -
    have kr: "fold (vector_add_ocl n BufV1 BufV2 BufV_out) [0..<g] d c k =
        (if c = BufV_out \<and> k < g then d BufV1 k + d BufV2 k else d c k)" for n g d c k
      by (rule kernel_run) simp_all
    show ?thesis
      using assms(3,4) by (simp only: d4 kr d2) simp
  qed
  have "mem (final (offload w s)) (v_out s + i) = dmem ?s4 BufV_out (nat i)"
    using assms(3,4) ok(3,11) by (simp add: offload_ok [OF assms(1)] read_buffer_mem tc)
  then show ?thesis
    by (simp only: cell)
qed

section \<open>The vectors of a run\<close>

lemma inputs_mem: "mem (inputs w) = mem (init_vectors w (parse_args w (start w)))"
  by (simp add: inputs_def)

lemma inputs_cells:
  assumes "vectors_apart w (sint (vector_length w))" "0 \<le> k" "k < sint (vector_length w)"
  shows "mem (inputs w) (malloc w 0 + k) = word_of_int (sint (rand w (nat k)) smod 100)"
    and "mem (inputs w) (malloc w 1 + k) =
           word_of_int (sint (rand w (nat (sint (vector_length w)) + nat k)) smod 100)"
proof -
  let ?s = "parse_args w (start w)"
  have s: "malloc_calls ?s = 0" "rand_calls ?s = 0" "SZ ?s = vector_length w"
    by (simp_all add: vector_length_def)
  have a: "vectors_apart w (sint (SZ ?s))" "k < sint (SZ ?s)"
    using assms by (simp_all only: s)
  show "mem (inputs w) (malloc w 0 + k) = word_of_int (sint (rand w (nat k)) smod 100)"
    using init_vectors_cells(1) [OF s(1) a(1) assms(2) a(2)] by (simp only: inputs_mem s) simp
  show "mem (inputs w) (malloc w 1 + k) =
           word_of_int (sint (rand w (nat (sint (vector_length w)) + nat k)) smod 100)"
    using init_vectors_cells(2) [OF s(1) a(1) assms(2) a(2)] by (simp only: inputs_mem s) simp
qed

lemma world_ok_facts:
  "vector_length world_ok = 3" "transfers_ok world_ok" "vectors_apart world_ok 3"
  "malloc world_ok 0 = 100" "malloc world_ok 1 = 200" "malloc world_ok 2 = 300"
  by (simp_all add: vector_length_def parse_args_def start_def world_ok_def libc_atoi_def
      transfers_ok_def CL_SUCCESS_def vectors_apart_def disjoint_blocks_def)

lemma openmp_inputs_fields [simp]:
  "SZ (openmp_inputs w) = vector_length w"
  "v1 (openmp_inputs w) = malloc w 0" "v2 (openmp_inputs w) = malloc w 1"
  "v_out (openmp_inputs w) = malloc w 2"
  "rand_calls (openmp_inputs w) = 3 * nat (sint (vector_length w))"
  by (simp_all add: openmp_inputs_def vector_length_def numeral_2_eq_2)

lemma openmp_inputs_cells:
  assumes "vectors_apart w (sint (vector_length w))" "0 \<le> k" "k < sint (vector_length w)"
  shows "mem (openmp_inputs w) (malloc w 0 + k) = word_of_int (sint (rand w (nat k)) smod 100)"
    and "mem (openmp_inputs w) (malloc w 1 + k) =
           word_of_int (sint (rand w (nat (sint (vector_length w)) + nat k)) smod 100)"
proof -
  let ?s = "log (Printf (''Running OpenMP implementation with ''
              @ show_int (sint (omp_get_max_threads w)) @ '' threads'' @ newline))
          (parse_args w (start w))"
  have m: "mem (openmp_inputs w) = mem (init_vectors w ?s)"
    by (simp add: openmp_inputs_def)
  have s: "malloc_calls ?s = 0" "rand_calls ?s = 0" "SZ ?s = vector_length w"
    by (simp_all add: vector_length_def)
  have a: "vectors_apart w (sint (SZ ?s))" "k < sint (SZ ?s)"
    using assms by (simp_all only: s)
  show "mem (openmp_inputs w) (malloc w 0 + k) = word_of_int (sint (rand w (nat k)) smod 100)"
    using init_vectors_cells(1) [OF s(1) a(1) assms(2) a(2)] by (simp only: m s) simp
  show "mem (openmp_inputs w) (malloc w 1 + k) =
           word_of_int (sint (rand w (nat (sint (vector_length w)) + nat k)) smod 100)"
    using init_vectors_cells(2) [OF s(1) a(1) assms(2) a(2)] by (simp only: m s) simp
qed

lemma openmp_main_fields:
  "fst (openmp_main w) = 0"
  "SZ (snd (openmp_main w)) = vector_length w"
  "v1 (snd (openmp_main w)) = malloc w 0" "v2 (snd (openmp_main w)) = malloc w 1"
  "v_out (snd (openmp_main w)) = malloc w 2"
  "rand_calls (snd (openmp_main w)) = 3 * nat (sint (vector_length w))"
  "mem (snd (openmp_main w)) =
     vector_add_openmp (malloc w 0) (malloc w 1) (malloc w 2) (vector_length w) (mem (openmp_inputs w))"
proof -
  have alt: "openmp_main w =
     (let s = openmp_inputs w;
          s = s\<lparr>mem := vector_add_openmp (v1 s) (v2 s) (v_out s) (SZ s) (mem s)\<rparr>;
          s = log (Printf (''Vector v_out (OpenMP):'' @ newline)) s;
          s = print (v_out s) (SZ s) s;
          s = log (Printf (''CPU (OpenMP) Execution Time: '' @ elapsed w @ '' ms'' @ newline)) s;
          s = log (Free (v1 s)) s;
          s = log (Free (v2 s)) s;
          s = log (Free (v_out s)) s
      in (0, s))"
    by (simp only: openmp_main_def openmp_inputs_def Let_def)
  show "fst (openmp_main w) = 0"
    "SZ (snd (openmp_main w)) = vector_length w"
    "v1 (snd (openmp_main w)) = malloc w 0" "v2 (snd (openmp_main w)) = malloc w 1"
    "v_out (snd (openmp_main w)) = malloc w 2"
    "rand_calls (snd (openmp_main w)) = 3 * nat (sint (vector_length w))"
    "mem (snd (openmp_main w)) =
       vector_add_openmp (malloc w 0) (malloc w 1) (malloc w 2) (vector_length w) (mem (openmp_inputs w))"
    by (simp_all add: alt Let_def)
qed

lemma opencl_main_fields:
  "SZ (snd (opencl_main w)) = vector_length w"
  "v1 (snd (opencl_main w)) = malloc w 0" "v2 (snd (opencl_main w)) = malloc w 1"
  "v_out (snd (opencl_main w)) = malloc w 2"
  "rand_calls (snd (opencl_main w)) = 3 * nat (sint (vector_length w))"
  "mem (snd (opencl_main w)) = mem (final (offload w (inputs w)))"
proof -
  have "SZ (snd (opencl_main w)) = vector_length w
    \<and> v1 (snd (opencl_main w)) = malloc w 0 \<and> v2 (snd (opencl_main w)) = malloc w 1
    \<and> v_out (snd (opencl_main w)) = malloc w 2
    \<and> rand_calls (snd (opencl_main w)) = 3 * nat (sint (vector_length w))
    \<and> mem (snd (opencl_main w)) = mem (final (offload w (inputs w)))"
  proof (cases "offload w (inputs w)")
    case (Exit c s')
    have f: "s' = final (offload w (inputs w))"
      by (simp add: Exit)
    have "snd (opencl_main w) = s'"
      by (simp add: opencl_main_alt Exit)
    then show ?thesis
      by (simp only: f) simp
  next
    case (Return u s')
    have f: "s' = final (offload w (inputs w))"
      by (simp add: Return)
    have "snd (opencl_main w) = free_memory
                (log (Printf (''OpenCL Kernel Execution Time: '' @ elapsed w @ '' ms'' @ newline))
                  (print (v_out s') (SZ s')
                    (log (Printf (''Vector v_out (OpenCL):'' @ newline)) s')))"
      by (simp add: opencl_main_alt Return)
    then show ?thesis
      by (simp only: f) simp
  qed
  then show "SZ (snd (opencl_main w)) = vector_length w"
    "v1 (snd (opencl_main w)) = malloc w 0" "v2 (snd (opencl_main w)) = malloc w 1"
    "v_out (snd (opencl_main w)) = malloc w 2"
    "rand_calls (snd (opencl_main w)) = 3 * nat (sint (vector_length w))"
    "mem (snd (opencl_main w)) = mem (final (offload w (inputs w)))"
    by simp_all
qed

section \<open>The sum, element by element\<close>

lemma vector_add_openmp_outside:
  "\<not> (out \<le> p \<and> p < out + sint sz) \<Longrightarrow> vector_add_openmp a b out sz m p = m p"
  by (simp add: vector_add_openmp_def vector_add_loop_outside)

lemma vector_add_openmp_input:
  "disjoint_blocks out c (sint sz) \<Longrightarrow> 0 \<le> k \<Longrightarrow> k < sint sz \<Longrightarrow>
   vector_add_openmp a b out sz m (c + k) = m (c + k)"
  by (rule vector_add_openmp_outside) (auto simp: disjoint_blocks_def)

lemma vector_add_openmp_sum:
  "disjoint_blocks out a (sint sz) \<Longrightarrow> disjoint_blocks out b (sint sz) \<Longrightarrow>
   0 \<le> i \<Longrightarrow> i < sint sz \<Longrightarrow>
   vector_add_openmp a b out sz m (out + i) = m (a + i) + m (b + i)"
  by (simp add: vector_add_openmp_def vector_add_loop_sum)

lemma offload_input:
  assumes "disjoint_blocks (v_out s) c (sint (SZ s))" "0 \<le> k" "k < sint (SZ s)"
  shows "mem (final (offload w s)) (c + k) = mem s (c + k)"
proof -
  have "0 \<le> sint (SZ s)"
    using assms(2,3) by linarith
  moreover have "\<not> (v_out s \<le> c + k \<and> c + k < v_out s + sint (SZ s))"
    using assms by (auto simp: disjoint_blocks_def)
  ultimately show ?thesis
    by (rule offload_mem_outside)
qed

text \<open>
  C1. After the vector addition, every element of the output is the sum of the two
  input elements at the same index, for every length and all contents of the inputs.
  On the OpenMP path: when the output block shares no cell with the two input blocks,
  \<open>out[i]\<close> is the sum of \<open>a[i]\<close> and \<open>b[i]\<close>, read before the call or after it, and
  this holds in whatever order the runtime runs the iterations. On the OpenCL path: when
  the set-up passes and every call that moves data succeeds, the host cell \<open>v_out[i]\<close>
  holds after the read-back the sum of \<open>v1[i]\<close> and \<open>v2[i]\<close> as they were uploaded, and as
  they still are when the output block is apart from the input blocks.
\<close>

theorem vector_add_sums:
  "(disjoint_blocks out a (sint sz) \<and> disjoint_blocks out b (sint sz) \<and> 0 \<le> i \<and> i < sint sz \<longrightarrow>
      vector_add_openmp a b out sz m (out + i) = m (a + i) + m (b + i)
      \<and> vector_add_openmp a b out sz m (out + i) =
          vector_add_openmp a b out sz m (a + i) + vector_add_openmp a b out sz m (b + i)
      \<and> (\<forall>js. set js = set (iterations sz) \<longrightarrow>
            vector_add_in_order js a b out m (out + i) = m (a + i) + m (b + i)))
   \<and> (setup_ok w \<and> transfers_ok w \<and> 0 \<le> i \<and> i < sint (SZ s) \<longrightarrow>
      mem (final (offload w s)) (v_out s + i) = mem s (v1 s + i) + mem s (v2 s + i)
      \<and> (disjoint_blocks (v_out s) (v1 s) (sint (SZ s))
           \<and> disjoint_blocks (v_out s) (v2 s) (sint (SZ s)) \<longrightarrow>
           mem (final (offload w s)) (v_out s + i) =
             mem (final (offload w s)) (v1 s + i) + mem (final (offload w s)) (v2 s + i)))"
proof -
  have omp: "vector_add_openmp a b out sz m (out + i) = m (a + i) + m (b + i)"
    "vector_add_openmp a b out sz m (out + i) =
          vector_add_openmp a b out sz m (a + i) + vector_add_openmp a b out sz m (b + i)"
    "vector_add_in_order js a b out m (out + i) = m (a + i) + m (b + i)"
    if h: "disjoint_blocks out a (sint sz)" "disjoint_blocks out b (sint sz)" "0 \<le> i" "i < sint sz"
      and js: "set js = set (iterations sz)" for js
  proof -
    show 1: "vector_add_openmp a b out sz m (out + i) = m (a + i) + m (b + i)"
      using h by (rule vector_add_openmp_sum)
    show "vector_add_openmp a b out sz m (out + i) =
          vector_add_openmp a b out sz m (a + i) + vector_add_openmp a b out sz m (b + i)"
      by (simp only: 1 vector_add_openmp_input [OF h(1,3,4)] vector_add_openmp_input [OF h(2,3,4)])
    show "vector_add_in_order js a b out m (out + i) = m (a + i) + m (b + i)"
      by (simp only: vector_add_any_order [OF js h(1,2)] 1)
  qed
  have ocl: "mem (final (offload w s)) (v_out s + i) = mem s (v1 s + i) + mem s (v2 s + i)"
    if "setup_ok w" "transfers_ok w" "0 \<le> i" "i < sint (SZ s)"
    using that by (rule offload_sum)
  have ocl': "mem (final (offload w s)) (v_out s + i) =
             mem (final (offload w s)) (v1 s + i) + mem (final (offload w s)) (v2 s + i)"
    if h: "setup_ok w" "transfers_ok w" "0 \<le> i" "i < sint (SZ s)"
      and d: "disjoint_blocks (v_out s) (v1 s) (sint (SZ s))"
        "disjoint_blocks (v_out s) (v2 s) (sint (SZ s))"
    by (simp only: ocl [OF h] offload_input [OF d(1) h(3,4)] offload_input [OF d(2) h(3,4)])
  show ?thesis
    using omp ocl ocl' by blast
qed

theorem vector_add_sums_witness:
  "disjoint_blocks 20 0 (sint (3 :: cint)) \<and> disjoint_blocks 20 10 (sint (3 :: cint))
   \<and> vector_add_openmp 0 10 20 3 (\<lambda>p. word_of_int p) 22 = 14
   \<and> setup_ok world_ok \<and> transfers_ok world_ok
   \<and> SZ (inputs world_ok) = 3 \<and> v1 (inputs world_ok) = 100 \<and> v2 (inputs world_ok) = 200
   \<and> v_out (inputs world_ok) = 300
   \<and> mem (inputs world_ok) 101 = 20 \<and> mem (inputs world_ok) 201 = 59
   \<and> mem (final (offload world_ok (inputs world_ok))) 301 = 79"
proof -
  have d: "disjoint_blocks 20 0 (sint (3 :: cint))" "disjoint_blocks 20 10 (sint (3 :: cint))"
    by (simp_all add: disjoint_blocks_def)
  have 1: "vector_add_openmp 0 10 20 3 (\<lambda>p. word_of_int p) 22 = 14"
    using vector_add_sums [of 20 0 3 10 2 "\<lambda>p. word_of_int p"] d by simp
  note f = world_ok_facts
  have s: "SZ (inputs world_ok) = 3" "v1 (inputs world_ok) = 100" "v2 (inputs world_ok) = 200"
    "v_out (inputs world_ok) = 300"
    using f by simp_all
  have a: "vectors_apart world_ok (sint (vector_length world_ok))"
    using f(3) by (simp add: f(1))
  have c: "mem (inputs world_ok) 101 = 20" "mem (inputs world_ok) 201 = 59"
  proof -
    have r: "rand world_ok 1 = 20" "rand world_ok 4 = 59"
      by (simp_all add: world_ok_def)
    have k: "(0 :: int) \<le> 1" "1 < sint (vector_length world_ok)"
      by (simp_all add: f(1))
    show "mem (inputs world_ok) 101 = 20"
      using inputs_cells(1) [OF a k] f(4) r(1) by (simp add: signed_modulo_int_def)
    show "mem (inputs world_ok) 201 = 59"
      using inputs_cells(2) [OF a k] f(1,5) r(2) by (simp add: signed_modulo_int_def)
  qed
  have "mem (final (offload world_ok (inputs world_ok))) (v_out (inputs world_ok) + 1) =
      mem (inputs world_ok) (v1 (inputs world_ok) + 1) + mem (inputs world_ok) (v2 (inputs world_ok) + 1)"
    using vector_add_sums [of _ _ _ _ 1 _ world_ok "inputs world_ok"] world_ok_setup_ok f(2)
    by (simp add: f(1))
  then have 2: "mem (final (offload world_ok (inputs world_ok))) 301 = 79"
    using f c by simp
  show ?thesis
    using d 1 world_ok_setup_ok f(2) s c 2 by blast
qed

section \<open>The two programs side by side\<close>

lemma vectors_apart_out:
  assumes "vectors_apart w n"
  shows "disjoint_blocks (malloc w 2) (malloc w 0) n" "disjoint_blocks (malloc w 2) (malloc w 1) n"
  using assms by (auto simp: vectors_apart_def disjoint_blocks_def)

lemma openmp_main_cells:
  assumes "vectors_apart w (sint (vector_length w))" "0 \<le> k" "k < sint (vector_length w)"
  shows "mem (snd (openmp_main w)) (malloc w 0 + k) = word_of_int (sint (rand w (nat k)) smod 100)"
    and "mem (snd (openmp_main w)) (malloc w 1 + k) =
           word_of_int (sint (rand w (nat (sint (vector_length w)) + nat k)) smod 100)"
    and "mem (snd (openmp_main w)) (malloc w 2 + k) =
           word_of_int (sint (rand w (nat k)) smod 100)
           + word_of_int (sint (rand w (nat (sint (vector_length w)) + nat k)) smod 100)"
proof -
  note d = vectors_apart_out [OF assms(1)]
  note c = openmp_inputs_cells [OF assms]
  show "mem (snd (openmp_main w)) (malloc w 0 + k) = word_of_int (sint (rand w (nat k)) smod 100)"
    by (simp only: openmp_main_fields(7) vector_add_openmp_input [OF d(1) assms(2,3)] c)
  show "mem (snd (openmp_main w)) (malloc w 1 + k) =
           word_of_int (sint (rand w (nat (sint (vector_length w)) + nat k)) smod 100)"
    by (simp only: openmp_main_fields(7) vector_add_openmp_input [OF d(2) assms(2,3)] c)
  show "mem (snd (openmp_main w)) (malloc w 2 + k) =
           word_of_int (sint (rand w (nat k)) smod 100)
           + word_of_int (sint (rand w (nat (sint (vector_length w)) + nat k)) smod 100)"
    by (simp only: openmp_main_fields(7) vector_add_openmp_sum [OF d assms(2,3)] c)
qed

lemma opencl_main_cells:
  assumes "vectors_apart w (sint (vector_length w))" "0 \<le> k" "k < sint (vector_length w)"
  shows "mem (snd (opencl_main w)) (malloc w 0 + k) = word_of_int (sint (rand w (nat k)) smod 100)"
    and "mem (snd (opencl_main w)) (malloc w 1 + k) =
           word_of_int (sint (rand w (nat (sint (vector_length w)) + nat k)) smod 100)"
    and "setup_ok w \<Longrightarrow> transfers_ok w \<Longrightarrow>
         mem (snd (opencl_main w)) (malloc w 2 + k) =
           word_of_int (sint (rand w (nat k)) smod 100)
           + word_of_int (sint (rand w (nat (sint (vector_length w)) + nat k)) smod 100)"
proof -
  have d: "disjoint_blocks (v_out (inputs w)) (malloc w 0) (sint (SZ (inputs w)))"
    "disjoint_blocks (v_out (inputs w)) (malloc w 1) (sint (SZ (inputs w)))"
    using vectors_apart_out [OF assms(1)] by simp_all
  have k: "k < sint (SZ (inputs w))"
    using assms(3) by simp
  note c = inputs_cells [OF assms]
  show "mem (snd (opencl_main w)) (malloc w 0 + k) = word_of_int (sint (rand w (nat k)) smod 100)"
    by (simp only: opencl_main_fields(6) offload_input [OF d(1) assms(2) k] c)
  show "mem (snd (opencl_main w)) (malloc w 1 + k) =
           word_of_int (sint (rand w (nat (sint (vector_length w)) + nat k)) smod 100)"
    by (simp only: opencl_main_fields(6) offload_input [OF d(2) assms(2) k] c)
  show "mem (snd (opencl_main w)) (malloc w 2 + k) =
           word_of_int (sint (rand w (nat k)) smod 100)
           + word_of_int (sint (rand w (nat (sint (vector_length w)) + nat k)) smod 100)"
    if "setup_ok w" "transfers_ok w"
    using offload_sum [OF that assms(2) k] c by (simp add: opencl_main_fields(6))
qed

text \<open>
  C2. On the same input vectors of the same length, with the output block apart from the
  input blocks, the offload (in a run where the set-up passes and every call that moves
  data succeeds) and the OpenMP vector addition leave the same value in every element of
  the output; when the length is not negative they leave the same host memory
  altogether. So the two programs, run in the same world, end with the same elements in
  \<^verbatim>\<open>v_out\<close>.
\<close>

theorem offload_agrees_with_openmp:
  assumes "setup_ok w" "transfers_ok w"
  shows "(disjoint_blocks (v_out s) (v1 s) (sint (SZ s)) \<and> disjoint_blocks (v_out s) (v2 s) (sint (SZ s))
          \<and> 0 \<le> i \<and> i < sint (SZ s) \<longrightarrow>
          mem (final (offload w s)) (v_out s + i) =
            vector_add_openmp (v1 s) (v2 s) (v_out s) (SZ s) (mem s) (v_out s + i))
     \<and> (disjoint_blocks (v_out s) (v1 s) (sint (SZ s)) \<and> disjoint_blocks (v_out s) (v2 s) (sint (SZ s))
          \<and> 0 \<le> sint (SZ s) \<longrightarrow>
          mem (final (offload w s)) = vector_add_openmp (v1 s) (v2 s) (v_out s) (SZ s) (mem s))
     \<and> (vectors_apart w (sint (vector_length w)) \<and> 0 \<le> i \<and> i < sint (vector_length w) \<longrightarrow>
          mem (snd (opencl_main w)) (v_out (snd (opencl_main w)) + i) =
            mem (snd (openmp_main w)) (v_out (snd (openmp_main w)) + i))"
proof -
  have cell: "mem (final (offload w s)) (v_out s + i) =
            vector_add_openmp (v1 s) (v2 s) (v_out s) (SZ s) (mem s) (v_out s + i)"
    if d: "disjoint_blocks (v_out s) (v1 s) (sint (SZ s))"
      "disjoint_blocks (v_out s) (v2 s) (sint (SZ s))" and i: "0 \<le> i" "i < sint (SZ s)" for i
    by (simp only: offload_sum [OF assms i] vector_add_openmp_sum [OF d i])
  have whole: "mem (final (offload w s)) = vector_add_openmp (v1 s) (v2 s) (v_out s) (SZ s) (mem s)"
    if d: "disjoint_blocks (v_out s) (v1 s) (sint (SZ s))"
      "disjoint_blocks (v_out s) (v2 s) (sint (SZ s))" and n: "0 \<le> sint (SZ s)"
  proof
    fix p
    show "mem (final (offload w s)) p = vector_add_openmp (v1 s) (v2 s) (v_out s) (SZ s) (mem s) p"
    proof (cases "v_out s \<le> p \<and> p < v_out s + sint (SZ s)")
      case True
      then have "0 \<le> p - v_out s" "p - v_out s < sint (SZ s)"
        by linarith+
      from cell [OF d this] show ?thesis
        by simp
    next
      case False
      then show ?thesis
        by (simp only: offload_mem_outside [OF n False] vector_add_openmp_outside [OF False])
    qed
  qed
  have mains: "mem (snd (opencl_main w)) (v_out (snd (opencl_main w)) + i) =
            mem (snd (openmp_main w)) (v_out (snd (openmp_main w)) + i)"
    if "vectors_apart w (sint (vector_length w))" "0 \<le> i" "i < sint (vector_length w)"
    by (simp only: opencl_main_fields(4) openmp_main_fields(5)
        opencl_main_cells(3) [OF that assms] openmp_main_cells(3) [OF that])
  show ?thesis
    using cell whole mains by blast
qed

theorem offload_agrees_with_openmp_witness:
  "setup_ok world_ok \<and> transfers_ok world_ok \<and> vectors_apart world_ok (sint (vector_length world_ok))
   \<and> v_out (snd (opencl_main world_ok)) = 300 \<and> v_out (snd (openmp_main world_ok)) = 300
   \<and> mem (snd (opencl_main world_ok)) 302 = mem (snd (openmp_main world_ok)) 302"
proof -
  note f = world_ok_facts
  have a: "vectors_apart world_ok (sint (vector_length world_ok))"
    using f(3) by (simp add: f(1))
  have v: "v_out (snd (opencl_main world_ok)) = 300" "v_out (snd (openmp_main world_ok)) = 300"
    using f(6) by (simp_all add: opencl_main_fields openmp_main_fields)
  have i: "(0 :: int) \<le> 2" "2 < sint (vector_length world_ok)"
    by (simp_all add: f(1))
  have "mem (snd (opencl_main world_ok)) (v_out (snd (opencl_main world_ok)) + 2) =
      mem (snd (openmp_main world_ok)) (v_out (snd (openmp_main world_ok)) + 2)"
    using offload_agrees_with_openmp [OF world_ok_setup_ok f(2), of _ 2] a i by blast
  then have "mem (snd (opencl_main world_ok)) 302 = mem (snd (openmp_main world_ok)) 302"
    by (simp only: v) simp
  then show ?thesis
    using world_ok_setup_ok f(2) a v by blast
qed

section \<open>Vector length and initial contents\<close>

lemma opencl_main_exit_code: "fst (opencl_main w) = (if setup_ok w then 0 else 1)"
  by (simp add: opencl_main_ok opencl_main_failed(1))

lemma setup_ok_args [simp]: "setup_ok (w\<lparr>argv := a, atoi := f\<rparr>) = setup_ok w"
  by (simp add: setup_ok_def build_reached_def device_found_def)

lemma vector_length_eq:
  "vector_length w = (if 1 < length (argv w) then atoi w (argv w ! 1) else 100000000)"
  by (simp add: vector_length_def)

text \<open>
  C8. In both programs the vector length is what \<^verbatim>\<open>atoi\<close> returns for the first
  argument when there is one, and 100000000 when there is none. The value is used as
  it is: each of the three calls of init draws that many random numbers (none when it
  is not positive), the OpenMP program ends with exit code 0 whatever it is, and the
  exit code of the OpenCL program does not depend on the arguments or on how they parse.
\<close>

theorem length_is_parsed_argument:
  "SZ (snd (openmp_main w)) = (if 1 < length (argv w) then atoi w (argv w ! 1) else 100000000)
   \<and> SZ (snd (opencl_main w)) = (if 1 < length (argv w) then atoi w (argv w ! 1) else 100000000)
   \<and> rand_calls (snd (openmp_main w)) = 3 * nat (sint (SZ (snd (openmp_main w))))
   \<and> rand_calls (snd (opencl_main w)) = 3 * nat (sint (SZ (snd (opencl_main w))))
   \<and> fst (openmp_main w) = 0
   \<and> fst (opencl_main (w\<lparr>argv := a, atoi := f\<rparr>)) = fst (opencl_main w)"
  by (simp add: openmp_main_fields opencl_main_fields vector_length_eq opencl_main_exit_code)

text \<open>
  In the example world: a negative argument, an argument that is not a number, and no
  argument.
\<close>

lemma length_examples:
  "SZ (snd (openmp_main (world_ok\<lparr>argv := [''./vector_add'', ''-5'']\<rparr>))) = - 5"
  "SZ (snd (opencl_main (world_ok\<lparr>argv := [''./vector_add'', ''abc'']\<rparr>))) = 0"
  "SZ (snd (openmp_main (world_ok\<lparr>argv := [''./vector_add'']\<rparr>))) = 100000000"
  "rand_calls (snd (openmp_main (world_ok\<lparr>argv := [''./vector_add'', ''-5'']\<rparr>))) = 0"
  by (simp_all add: openmp_main_fields opencl_main_fields vector_length_eq world_ok_def libc_atoi_def)

text \<open>
  C9. Neither program seeds the generator, so both draw from the sequence \<open>rand w\<close> of
  the default seed, from its start. Take two runs, of either program, with the same
  sequence and the same vector length, in each of which the three vectors are blocks of
  their own. Then element \<open>k\<close> of \<^verbatim>\<open>v1\<close> is the same in both runs, and so is element
  \<open>k\<close> of \<^verbatim>\<open>v2\<close>: they are the \<open>k\<close>-th and the \<open>(N + k)\<close>-th number of the sequence,
  reduced modulo 100.
\<close>

theorem inputs_are_deterministic:
  assumes "rand w = rand w'" "vector_length w = vector_length w'"
    "vectors_apart w (sint (vector_length w))" "vectors_apart w' (sint (vector_length w'))"
    "0 \<le> k" "k < sint (vector_length w)"
  shows "mem (snd (openmp_main w)) (v1 (snd (openmp_main w)) + k) =
           mem (snd (opencl_main w')) (v1 (snd (opencl_main w')) + k)
     \<and> mem (snd (openmp_main w)) (v2 (snd (openmp_main w)) + k) =
           mem (snd (opencl_main w')) (v2 (snd (opencl_main w')) + k)
     \<and> mem (snd (openmp_main w)) (v1 (snd (openmp_main w)) + k) =
           mem (snd (openmp_main w')) (v1 (snd (openmp_main w')) + k)
     \<and> mem (snd (openmp_main w)) (v2 (snd (openmp_main w)) + k) =
           mem (snd (openmp_main w')) (v2 (snd (openmp_main w')) + k)
     \<and> mem (snd (opencl_main w)) (v1 (snd (opencl_main w)) + k) =
           mem (snd (opencl_main w')) (v1 (snd (opencl_main w')) + k)
     \<and> mem (snd (opencl_main w)) (v2 (snd (opencl_main w)) + k) =
           mem (snd (opencl_main w')) (v2 (snd (opencl_main w')) + k)
     \<and> mem (snd (openmp_main w)) (v1 (snd (openmp_main w)) + k) =
           word_of_int (sint (rand w (nat k)) smod 100)
     \<and> mem (snd (openmp_main w)) (v2 (snd (openmp_main w)) + k) =
           word_of_int (sint (rand w (nat (sint (vector_length w)) + nat k)) smod 100)"
proof -
  have k': "k < sint (vector_length w')"
    using assms(2,6) by simp
  note a = openmp_main_cells(1,2) [OF assms(3,5,6)]
  note b = openmp_main_cells(1,2) [OF assms(4,5) k']
  note c = opencl_main_cells(1,2) [OF assms(3,5,6)]
  note d = opencl_main_cells(1,2) [OF assms(4,5) k']
  show ?thesis
    by (simp only: openmp_main_fields(3,4) opencl_main_fields(2,3) a b c d
        assms(1) assms(2) simp_thms)
qed

theorem inputs_are_deterministic_witness:
  "rand world_ok = rand world_other \<and> vector_length world_ok = vector_length world_other
   \<and> vectors_apart world_ok (sint (vector_length world_ok))
   \<and> vectors_apart world_other (sint (vector_length world_other))
   \<and> v1 (snd (openmp_main world_ok)) = 100 \<and> v1 (snd (opencl_main world_other)) = 5000
   \<and> mem (snd (openmp_main world_ok)) 102 = mem (snd (opencl_main world_other)) 5002
   \<and> mem (snd (openmp_main world_ok)) 102 = 33"
proof -
  note f = world_ok_facts
  have r: "rand world_ok = rand world_other"
    by (simp add: world_other_def)
  have l: "vector_length world_other = 3"
    by (simp add: vector_length_def parse_args_def start_def world_other_def world_ok_def libc_atoi_def)
  have l': "vector_length world_ok = vector_length world_other"
    by (simp only: l f(1))
  have a: "vectors_apart world_ok (sint (vector_length world_ok))"
    using f(3) by (simp add: f(1))
  have b: "vectors_apart world_other (sint (vector_length world_other))"
    by (simp add: l) (simp add: vectors_apart_def disjoint_blocks_def world_other_def)
  have v: "v1 (snd (openmp_main world_ok)) = 100" "v1 (snd (opencl_main world_other)) = 5000"
    using f(4) by (simp_all add: openmp_main_fields opencl_main_fields world_other_def)
  have i: "(0 :: int) \<le> 2" "2 < sint (vector_length world_ok)"
    by (simp_all add: f(1))
  note t = inputs_are_deterministic [OF r l' a b i]
  have "mem (snd (openmp_main world_ok)) (v1 (snd (openmp_main world_ok)) + 2) =
           mem (snd (opencl_main world_other)) (v1 (snd (opencl_main world_other)) + 2)"
    using t by blast
  then have 1: "mem (snd (openmp_main world_ok)) 102 = mem (snd (opencl_main world_other)) 5002"
    by (simp only: v) simp
  have "mem (snd (openmp_main world_ok)) (v1 (snd (openmp_main world_ok)) + 2) =
           word_of_int (sint (rand world_ok (nat 2)) smod 100)"
    using t by blast
  moreover have "rand world_ok 2 = 33"
    by (simp add: world_ok_def)
  ultimately have 2: "mem (snd (openmp_main world_ok)) 102 = 33"
    by (simp add: v signed_modulo_int_def)
  show ?thesis
    using r l' a b v 1 2 by blast
qed

end
